theory Spec2Isabelle
  imports Main "HOL-Library.Word"
begin

section \<open>JavaScript strings\<close>

text \<open>
  A JavaScript string is a sequence of UTF-16 code units. \<open>String.prototype.trim\<close> and
  the regular-expression escape \<open>\s\<close> use the same set of code units (WhiteSpace and
  LineTerminator of ECMAScript).
\<close>

type_synonym jschar = "16 word"
type_synonym jsstring = "jschar list"

definition js :: "string \<Rightarrow> jsstring" where
  "js s = map of_char s"

definition isWhiteSpace :: "jschar \<Rightarrow> bool" where
  "isWhiteSpace c =
     (c \<in> set [0x0009, 0x000A, 0x000B, 0x000C, 0x000D, 0x0020, 0x00A0, 0x1680,
                 0x2028, 0x2029, 0x202F, 0x205F, 0x3000, 0xFEFF]
      \<or> (0x2000 \<le> c \<and> c \<le> 0x200A))"

definition trim :: "jsstring \<Rightarrow> jsstring" where
  "trim s = rev (dropWhile isWhiteSpace (rev (dropWhile isWhiteSpace s)))"

subsection \<open>Lower-casing\<close>

text \<open>
  \<open>String.prototype.toLowerCase\<close> reads the string as code points (a lead surrogate
  followed by a trail surrogate is one code point), applies the locale-insensitive
  lower-case mapping of the Unicode Character Database, and writes the result back as
  code units. The tables below are those of Unicode 15.0: the simple lower-case
  mappings as rows (first, last, stride, image of first), and the ranges of the Cased and
  Case_Ignorable properties that the Final_Sigma condition of SpecialCasing needs.
\<close>

definition lowerTable :: "(nat \<times> nat \<times> nat \<times> nat) list" where
  "lowerTable =
    [(0x0041, 0x005A, 1, 0x0061), (0x00C0, 0x00D6, 1, 0x00E0), (0x00D8, 0x00DE, 1, 0x00F8),
     (0x0100, 0x012E, 2, 0x0101), (0x0132, 0x0136, 2, 0x0133), (0x0139, 0x0147, 2, 0x013A),
     (0x014A, 0x0176, 2, 0x014B), (0x0178, 0x0178, 1, 0x00FF), (0x0179, 0x017D, 2, 0x017A),
     (0x0181, 0x0181, 1, 0x0253), (0x0182, 0x0184, 2, 0x0183), (0x0186, 0x0186, 1, 0x0254),
     (0x0187, 0x0187, 1, 0x0188), (0x0189, 0x018A, 1, 0x0256), (0x018B, 0x018B, 1, 0x018C),
     (0x018E, 0x018E, 1, 0x01DD), (0x018F, 0x018F, 1, 0x0259), (0x0190, 0x0190, 1, 0x025B),
     (0x0191, 0x0191, 1, 0x0192), (0x0193, 0x0193, 1, 0x0260), (0x0194, 0x0194, 1, 0x0263),
     (0x0196, 0x0196, 1, 0x0269), (0x0197, 0x0197, 1, 0x0268), (0x0198, 0x0198, 1, 0x0199),
     (0x019C, 0x019C, 1, 0x026F), (0x019D, 0x019D, 1, 0x0272), (0x019F, 0x019F, 1, 0x0275),
     (0x01A0, 0x01A4, 2, 0x01A1), (0x01A6, 0x01A6, 1, 0x0280), (0x01A7, 0x01A7, 1, 0x01A8),
     (0x01A9, 0x01A9, 1, 0x0283), (0x01AC, 0x01AC, 1, 0x01AD), (0x01AE, 0x01AE, 1, 0x0288),
     (0x01AF, 0x01AF, 1, 0x01B0), (0x01B1, 0x01B2, 1, 0x028A), (0x01B3, 0x01B5, 2, 0x01B4),
     (0x01B7, 0x01B7, 1, 0x0292), (0x01B8, 0x01B8, 1, 0x01B9), (0x01BC, 0x01BC, 1, 0x01BD),
     (0x01C4, 0x01C4, 1, 0x01C6), (0x01C5, 0x01C5, 1, 0x01C6), (0x01C7, 0x01C7, 1, 0x01C9),
     (0x01C8, 0x01C8, 1, 0x01C9), (0x01CA, 0x01CA, 1, 0x01CC), (0x01CB, 0x01DB, 2, 0x01CC),
     (0x01DE, 0x01EE, 2, 0x01DF), (0x01F1, 0x01F1, 1, 0x01F3), (0x01F2, 0x01F4, 2, 0x01F3),
     (0x01F6, 0x01F6, 1, 0x0195), (0x01F7, 0x01F7, 1, 0x01BF), (0x01F8, 0x021E, 2, 0x01F9),
     (0x0220, 0x0220, 1, 0x019E), (0x0222, 0x0232, 2, 0x0223), (0x023A, 0x023A, 1, 0x2C65),
     (0x023B, 0x023B, 1, 0x023C), (0x023D, 0x023D, 1, 0x019A), (0x023E, 0x023E, 1, 0x2C66),
     (0x0241, 0x0241, 1, 0x0242), (0x0243, 0x0243, 1, 0x0180), (0x0244, 0x0244, 1, 0x0289),
     (0x0245, 0x0245, 1, 0x028C), (0x0246, 0x024E, 2, 0x0247), (0x0370, 0x0372, 2, 0x0371),
     (0x0376, 0x0376, 1, 0x0377), (0x037F, 0x037F, 1, 0x03F3), (0x0386, 0x0386, 1, 0x03AC),
     (0x0388, 0x038A, 1, 0x03AD), (0x038C, 0x038C, 1, 0x03CC), (0x038E, 0x038F, 1, 0x03CD),
     (0x0391, 0x03A1, 1, 0x03B1), (0x03A3, 0x03AB, 1, 0x03C3), (0x03CF, 0x03CF, 1, 0x03D7),
     (0x03D8, 0x03EE, 2, 0x03D9), (0x03F4, 0x03F4, 1, 0x03B8), (0x03F7, 0x03F7, 1, 0x03F8),
     (0x03F9, 0x03F9, 1, 0x03F2), (0x03FA, 0x03FA, 1, 0x03FB), (0x03FD, 0x03FF, 1, 0x037B),
     (0x0400, 0x040F, 1, 0x0450), (0x0410, 0x042F, 1, 0x0430), (0x0460, 0x0480, 2, 0x0461),
     (0x048A, 0x04BE, 2, 0x048B), (0x04C0, 0x04C0, 1, 0x04CF), (0x04C1, 0x04CD, 2, 0x04C2),
     (0x04D0, 0x052E, 2, 0x04D1), (0x0531, 0x0556, 1, 0x0561), (0x10A0, 0x10C5, 1, 0x2D00),
     (0x10C7, 0x10C7, 1, 0x2D27), (0x10CD, 0x10CD, 1, 0x2D2D), (0x13A0, 0x13EF, 1, 0xAB70),
     (0x13F0, 0x13F5, 1, 0x13F8), (0x1C90, 0x1CBA, 1, 0x10D0), (0x1CBD, 0x1CBF, 1, 0x10FD),
     (0x1E00, 0x1E94, 2, 0x1E01), (0x1E9E, 0x1E9E, 1, 0x00DF), (0x1EA0, 0x1EFE, 2, 0x1EA1),
     (0x1F08, 0x1F0F, 1, 0x1F00), (0x1F18, 0x1F1D, 1, 0x1F10), (0x1F28, 0x1F2F, 1, 0x1F20),
     (0x1F38, 0x1F3F, 1, 0x1F30), (0x1F48, 0x1F4D, 1, 0x1F40), (0x1F59, 0x1F5F, 2, 0x1F51),
     (0x1F68, 0x1F6F, 1, 0x1F60), (0x1F88, 0x1F8F, 1, 0x1F80), (0x1F98, 0x1F9F, 1, 0x1F90),
     (0x1FA8, 0x1FAF, 1, 0x1FA0), (0x1FB8, 0x1FB9, 1, 0x1FB0), (0x1FBA, 0x1FBB, 1, 0x1F70),
     (0x1FBC, 0x1FBC, 1, 0x1FB3), (0x1FC8, 0x1FCB, 1, 0x1F72), (0x1FCC, 0x1FCC, 1, 0x1FC3),
     (0x1FD8, 0x1FD9, 1, 0x1FD0), (0x1FDA, 0x1FDB, 1, 0x1F76), (0x1FE8, 0x1FE9, 1, 0x1FE0),
     (0x1FEA, 0x1FEB, 1, 0x1F7A), (0x1FEC, 0x1FEC, 1, 0x1FE5), (0x1FF8, 0x1FF9, 1, 0x1F78),
     (0x1FFA, 0x1FFB, 1, 0x1F7C), (0x1FFC, 0x1FFC, 1, 0x1FF3), (0x2126, 0x2126, 1, 0x03C9),
     (0x212A, 0x212A, 1, 0x006B), (0x212B, 0x212B, 1, 0x00E5), (0x2132, 0x2132, 1, 0x214E),
     (0x2160, 0x216F, 1, 0x2170), (0x2183, 0x2183, 1, 0x2184), (0x24B6, 0x24CF, 1, 0x24D0),
     (0x2C00, 0x2C2F, 1, 0x2C30), (0x2C60, 0x2C60, 1, 0x2C61), (0x2C62, 0x2C62, 1, 0x026B),
     (0x2C63, 0x2C63, 1, 0x1D7D), (0x2C64, 0x2C64, 1, 0x027D), (0x2C67, 0x2C6B, 2, 0x2C68),
     (0x2C6D, 0x2C6D, 1, 0x0251), (0x2C6E, 0x2C6E, 1, 0x0271), (0x2C6F, 0x2C6F, 1, 0x0250),
     (0x2C70, 0x2C70, 1, 0x0252), (0x2C72, 0x2C72, 1, 0x2C73), (0x2C75, 0x2C75, 1, 0x2C76),
     (0x2C7E, 0x2C7F, 1, 0x023F), (0x2C80, 0x2CE2, 2, 0x2C81), (0x2CEB, 0x2CED, 2, 0x2CEC),
     (0x2CF2, 0x2CF2, 1, 0x2CF3), (0xA640, 0xA66C, 2, 0xA641), (0xA680, 0xA69A, 2, 0xA681),
     (0xA722, 0xA72E, 2, 0xA723), (0xA732, 0xA76E, 2, 0xA733), (0xA779, 0xA77B, 2, 0xA77A),
     (0xA77D, 0xA77D, 1, 0x1D79), (0xA77E, 0xA786, 2, 0xA77F), (0xA78B, 0xA78B, 1, 0xA78C),
     (0xA78D, 0xA78D, 1, 0x0265), (0xA790, 0xA792, 2, 0xA791), (0xA796, 0xA7A8, 2, 0xA797),
     (0xA7AA, 0xA7AA, 1, 0x0266), (0xA7AB, 0xA7AB, 1, 0x025C), (0xA7AC, 0xA7AC, 1, 0x0261),
     (0xA7AD, 0xA7AD, 1, 0x026C), (0xA7AE, 0xA7AE, 1, 0x026A), (0xA7B0, 0xA7B0, 1, 0x029E),
     (0xA7B1, 0xA7B1, 1, 0x0287), (0xA7B2, 0xA7B2, 1, 0x029D), (0xA7B3, 0xA7B3, 1, 0xAB53),
     (0xA7B4, 0xA7C2, 2, 0xA7B5), (0xA7C4, 0xA7C4, 1, 0xA794), (0xA7C5, 0xA7C5, 1, 0x0282),
     (0xA7C6, 0xA7C6, 1, 0x1D8E), (0xA7C7, 0xA7C9, 2, 0xA7C8), (0xA7D0, 0xA7D0, 1, 0xA7D1),
     (0xA7D6, 0xA7D8, 2, 0xA7D7), (0xA7F5, 0xA7F5, 1, 0xA7F6), (0xFF21, 0xFF3A, 1, 0xFF41),
     (0x10400, 0x10427, 1, 0x10428), (0x104B0, 0x104D3, 1, 0x104D8),
     (0x10570, 0x10594, 2, 0x10597), (0x10571, 0x10579, 2, 0x10598),
     (0x1057D, 0x10589, 2, 0x105A4), (0x1058D, 0x10591, 2, 0x105B4),
     (0x10595, 0x10595, 1, 0x105BC), (0x10C80, 0x10CB2, 1, 0x10CC0),
     (0x118A0, 0x118BF, 1, 0x118C0), (0x16E40, 0x16E5F, 1, 0x16E60),
     (0x1E900, 0x1E921, 1, 0x1E922)]"

definition casedRanges :: "(nat \<times> nat) list" where
  "casedRanges =
    [(0x0041, 0x005A), (0x0061, 0x007A), (0x00AA, 0x00AA), (0x00B5, 0x00B5), (0x00BA, 0x00BA),
     (0x00C0, 0x00D6), (0x00D8, 0x00F6), (0x00F8, 0x01BA), (0x01BC, 0x01BF), (0x01C4, 0x0293),
     (0x0295, 0x02B8), (0x02C0, 0x02C1), (0x02E0, 0x02E4), (0x0345, 0x0345), (0x0370, 0x0373),
     (0x0376, 0x0377), (0x037A, 0x037D), (0x037F, 0x037F), (0x0386, 0x0386), (0x0388, 0x038A),
     (0x038C, 0x038C), (0x038E, 0x03A1), (0x03A3, 0x03F5), (0x03F7, 0x0481), (0x048A, 0x052F),
     (0x0531, 0x0556), (0x0560, 0x0588), (0x10A0, 0x10C5), (0x10C7, 0x10C7), (0x10CD, 0x10CD),
     (0x10D0, 0x10FA), (0x10FC, 0x10FF), (0x13A0, 0x13F5), (0x13F8, 0x13FD), (0x1C80, 0x1C88),
     (0x1C90, 0x1CBA), (0x1CBD, 0x1CBF), (0x1D00, 0x1DBF), (0x1E00, 0x1F15), (0x1F18, 0x1F1D),
     (0x1F20, 0x1F45), (0x1F48, 0x1F4D), (0x1F50, 0x1F57), (0x1F59, 0x1F59), (0x1F5B, 0x1F5B),
     (0x1F5D, 0x1F5D), (0x1F5F, 0x1F7D), (0x1F80, 0x1FB4), (0x1FB6, 0x1FBC), (0x1FBE, 0x1FBE),
     (0x1FC2, 0x1FC4), (0x1FC6, 0x1FCC), (0x1FD0, 0x1FD3), (0x1FD6, 0x1FDB), (0x1FE0, 0x1FEC),
     (0x1FF2, 0x1FF4), (0x1FF6, 0x1FFC), (0x2071, 0x2071), (0x207F, 0x207F), (0x2090, 0x209C),
     (0x2102, 0x2102), (0x2107, 0x2107), (0x210A, 0x2113), (0x2115, 0x2115), (0x2119, 0x211D),
     (0x2124, 0x2124), (0x2126, 0x2126), (0x2128, 0x2128), (0x212A, 0x212D), (0x212F, 0x2134),
     (0x2139, 0x2139), (0x213C, 0x213F), (0x2145, 0x2149), (0x214E, 0x214E), (0x2160, 0x217F),
     (0x2183, 0x2184), (0x24B6, 0x24E9), (0x2C00, 0x2CE4), (0x2CEB, 0x2CEE), (0x2CF2, 0x2CF3),
     (0x2D00, 0x2D25), (0x2D27, 0x2D27), (0x2D2D, 0x2D2D), (0xA640, 0xA66D), (0xA680, 0xA69D),
     (0xA722, 0xA787), (0xA78B, 0xA78E), (0xA790, 0xA7CA), (0xA7D0, 0xA7D1), (0xA7D3, 0xA7D3),
     (0xA7D5, 0xA7D9), (0xA7F2, 0xA7F6), (0xA7F8, 0xA7FA), (0xAB30, 0xAB5A), (0xAB5C, 0xAB69),
     (0xAB70, 0xABBF), (0xFB00, 0xFB06), (0xFB13, 0xFB17), (0xFF21, 0xFF3A), (0xFF41, 0xFF5A),
     (0x10400, 0x1044F), (0x104B0, 0x104D3), (0x104D8, 0x104FB), (0x10570, 0x1057A),
     (0x1057C, 0x1058A), (0x1058C, 0x10592), (0x10594, 0x10595), (0x10597, 0x105A1),
     (0x105A3, 0x105B1), (0x105B3, 0x105B9), (0x105BB, 0x105BC), (0x10780, 0x10780),
     (0x10783, 0x10785), (0x10787, 0x107B0), (0x107B2, 0x107BA), (0x10C80, 0x10CB2),
     (0x10CC0, 0x10CF2), (0x118A0, 0x118DF), (0x16E40, 0x16E7F), (0x1D400, 0x1D454),
     (0x1D456, 0x1D49C), (0x1D49E, 0x1D49F), (0x1D4A2, 0x1D4A2), (0x1D4A5, 0x1D4A6),
     (0x1D4A9, 0x1D4AC), (0x1D4AE, 0x1D4B9), (0x1D4BB, 0x1D4BB), (0x1D4BD, 0x1D4C3),
     (0x1D4C5, 0x1D505), (0x1D507, 0x1D50A), (0x1D50D, 0x1D514), (0x1D516, 0x1D51C),
     (0x1D51E, 0x1D539), (0x1D53B, 0x1D53E), (0x1D540, 0x1D544), (0x1D546, 0x1D546),
     (0x1D54A, 0x1D550), (0x1D552, 0x1D6A5), (0x1D6A8, 0x1D6C0), (0x1D6C2, 0x1D6DA),
     (0x1D6DC, 0x1D6FA), (0x1D6FC, 0x1D714), (0x1D716, 0x1D734), (0x1D736, 0x1D74E),
     (0x1D750, 0x1D76E), (0x1D770, 0x1D788), (0x1D78A, 0x1D7A8), (0x1D7AA, 0x1D7C2),
     (0x1D7C4, 0x1D7CB), (0x1DF00, 0x1DF09), (0x1DF0B, 0x1DF1E), (0x1DF25, 0x1DF2A),
     (0x1E030, 0x1E06D), (0x1E900, 0x1E943), (0x1F130, 0x1F149), (0x1F150, 0x1F169),
     (0x1F170, 0x1F189)]"

definition caseIgnorableRanges :: "(nat \<times> nat) list" where
  "caseIgnorableRanges =
    [(0x0027, 0x0027), (0x002E, 0x002E), (0x003A, 0x003A), (0x005E, 0x005E), (0x0060, 0x0060),
     (0x00A8, 0x00A8), (0x00AD, 0x00AD), (0x00AF, 0x00AF), (0x00B4, 0x00B4), (0x00B7, 0x00B8),
     (0x02B0, 0x036F), (0x0374, 0x0375), (0x037A, 0x037A), (0x0384, 0x0385), (0x0387, 0x0387),
     (0x0483, 0x0489), (0x0559, 0x0559), (0x055F, 0x055F), (0x0591, 0x05BD), (0x05BF, 0x05BF),
     (0x05C1, 0x05C2), (0x05C4, 0x05C5), (0x05C7, 0x05C7), (0x05F4, 0x05F4), (0x0600, 0x0605),
     (0x0610, 0x061A), (0x061C, 0x061C), (0x0640, 0x0640), (0x064B, 0x065F), (0x0670, 0x0670),
     (0x06D6, 0x06DD), (0x06DF, 0x06E8), (0x06EA, 0x06ED), (0x070F, 0x070F), (0x0711, 0x0711),
     (0x0730, 0x074A), (0x07A6, 0x07B0), (0x07EB, 0x07F5), (0x07FA, 0x07FA), (0x07FD, 0x07FD),
     (0x0816, 0x082D), (0x0859, 0x085B), (0x0888, 0x0888), (0x0890, 0x0891), (0x0898, 0x089F),
     (0x08C9, 0x0902), (0x093A, 0x093A), (0x093C, 0x093C), (0x0941, 0x0948), (0x094D, 0x094D),
     (0x0951, 0x0957), (0x0962, 0x0963), (0x0971, 0x0971), (0x0981, 0x0981), (0x09BC, 0x09BC),
     (0x09C1, 0x09C4), (0x09CD, 0x09CD), (0x09E2, 0x09E3), (0x09FE, 0x09FE), (0x0A01, 0x0A02),
     (0x0A3C, 0x0A3C), (0x0A41, 0x0A42), (0x0A47, 0x0A48), (0x0A4B, 0x0A4D), (0x0A51, 0x0A51),
     (0x0A70, 0x0A71), (0x0A75, 0x0A75), (0x0A81, 0x0A82), (0x0ABC, 0x0ABC), (0x0AC1, 0x0AC5),
     (0x0AC7, 0x0AC8), (0x0ACD, 0x0ACD), (0x0AE2, 0x0AE3), (0x0AFA, 0x0AFF), (0x0B01, 0x0B01),
     (0x0B3C, 0x0B3C), (0x0B3F, 0x0B3F), (0x0B41, 0x0B44), (0x0B4D, 0x0B4D), (0x0B55, 0x0B56),
     (0x0B62, 0x0B63), (0x0B82, 0x0B82), (0x0BC0, 0x0BC0), (0x0BCD, 0x0BCD), (0x0C00, 0x0C00),
     (0x0C04, 0x0C04), (0x0C3C, 0x0C3C), (0x0C3E, 0x0C40), (0x0C46, 0x0C48), (0x0C4A, 0x0C4D),
     (0x0C55, 0x0C56), (0x0C62, 0x0C63), (0x0C81, 0x0C81), (0x0CBC, 0x0CBC), (0x0CBF, 0x0CBF),
     (0x0CC6, 0x0CC6), (0x0CCC, 0x0CCD), (0x0CE2, 0x0CE3), (0x0D00, 0x0D01), (0x0D3B, 0x0D3C),
     (0x0D41, 0x0D44), (0x0D4D, 0x0D4D), (0x0D62, 0x0D63), (0x0D81, 0x0D81), (0x0DCA, 0x0DCA),
     (0x0DD2, 0x0DD4), (0x0DD6, 0x0DD6), (0x0E31, 0x0E31), (0x0E34, 0x0E3A), (0x0E46, 0x0E4E),
     (0x0EB1, 0x0EB1), (0x0EB4, 0x0EBC), (0x0EC6, 0x0EC6), (0x0EC8, 0x0ECE), (0x0F18, 0x0F19),
     (0x0F35, 0x0F35), (0x0F37, 0x0F37), (0x0F39, 0x0F39), (0x0F71, 0x0F7E), (0x0F80, 0x0F84),
     (0x0F86, 0x0F87), (0x0F8D, 0x0F97), (0x0F99, 0x0FBC), (0x0FC6, 0x0FC6), (0x102D, 0x1030),
     (0x1032, 0x1037), (0x1039, 0x103A), (0x103D, 0x103E), (0x1058, 0x1059), (0x105E, 0x1060),
     (0x1071, 0x1074), (0x1082, 0x1082), (0x1085, 0x1086), (0x108D, 0x108D), (0x109D, 0x109D),
     (0x10FC, 0x10FC), (0x135D, 0x135F), (0x1712, 0x1714), (0x1732, 0x1733), (0x1752, 0x1753),
     (0x1772, 0x1773), (0x17B4, 0x17B5), (0x17B7, 0x17BD), (0x17C6, 0x17C6), (0x17C9, 0x17D3),
     (0x17D7, 0x17D7), (0x17DD, 0x17DD), (0x180B, 0x180F), (0x1843, 0x1843), (0x1885, 0x1886),
     (0x18A9, 0x18A9), (0x1920, 0x1922), (0x1927, 0x1928), (0x1932, 0x1932), (0x1939, 0x193B),
     (0x1A17, 0x1A18), (0x1A1B, 0x1A1B), (0x1A56, 0x1A56), (0x1A58, 0x1A5E), (0x1A60, 0x1A60),
     (0x1A62, 0x1A62), (0x1A65, 0x1A6C), (0x1A73, 0x1A7C), (0x1A7F, 0x1A7F), (0x1AA7, 0x1AA7),
     (0x1AB0, 0x1ACE), (0x1B00, 0x1B03), (0x1B34, 0x1B34), (0x1B36, 0x1B3A), (0x1B3C, 0x1B3C),
     (0x1B42, 0x1B42), (0x1B6B, 0x1B73), (0x1B80, 0x1B81), (0x1BA2, 0x1BA5), (0x1BA8, 0x1BA9),
     (0x1BAB, 0x1BAD), (0x1BE6, 0x1BE6), (0x1BE8, 0x1BE9), (0x1BED, 0x1BED), (0x1BEF, 0x1BF1),
     (0x1C2C, 0x1C33), (0x1C36, 0x1C37), (0x1C78, 0x1C7D), (0x1CD0, 0x1CD2), (0x1CD4, 0x1CE0),
     (0x1CE2, 0x1CE8), (0x1CED, 0x1CED), (0x1CF4, 0x1CF4), (0x1CF8, 0x1CF9), (0x1D2C, 0x1D6A),
     (0x1D78, 0x1D78), (0x1D9B, 0x1DFF), (0x1FBD, 0x1FBD), (0x1FBF, 0x1FC1), (0x1FCD, 0x1FCF),
     (0x1FDD, 0x1FDF), (0x1FED, 0x1FEF), (0x1FFD, 0x1FFE), (0x200B, 0x200F), (0x2018, 0x2019),
     (0x2024, 0x2024), (0x2027, 0x2027), (0x202A, 0x202E), (0x2060, 0x2064), (0x2066, 0x206F),
     (0x2071, 0x2071), (0x207F, 0x207F), (0x2090, 0x209C), (0x20D0, 0x20F0), (0x2C7C, 0x2C7D),
     (0x2CEF, 0x2CF1), (0x2D6F, 0x2D6F), (0x2D7F, 0x2D7F), (0x2DE0, 0x2DFF), (0x2E2F, 0x2E2F),
     (0x3005, 0x3005), (0x302A, 0x302D), (0x3031, 0x3035), (0x303B, 0x303B), (0x3099, 0x309E),
     (0x30FC, 0x30FE), (0xA015, 0xA015), (0xA4F8, 0xA4FD), (0xA60C, 0xA60C), (0xA66F, 0xA672),
     (0xA674, 0xA67D), (0xA67F, 0xA67F), (0xA69C, 0xA69F), (0xA6F0, 0xA6F1), (0xA700, 0xA721),
     (0xA770, 0xA770), (0xA788, 0xA78A), (0xA7F2, 0xA7F4), (0xA7F8, 0xA7F9), (0xA802, 0xA802),
     (0xA806, 0xA806), (0xA80B, 0xA80B), (0xA825, 0xA826), (0xA82C, 0xA82C), (0xA8C4, 0xA8C5),
     (0xA8E0, 0xA8F1), (0xA8FF, 0xA8FF), (0xA926, 0xA92D), (0xA947, 0xA951), (0xA980, 0xA982),
     (0xA9B3, 0xA9B3), (0xA9B6, 0xA9B9), (0xA9BC, 0xA9BD), (0xA9CF, 0xA9CF), (0xA9E5, 0xA9E6),
     (0xAA29, 0xAA2E), (0xAA31, 0xAA32), (0xAA35, 0xAA36), (0xAA43, 0xAA43), (0xAA4C, 0xAA4C),
     (0xAA70, 0xAA70), (0xAA7C, 0xAA7C), (0xAAB0, 0xAAB0), (0xAAB2, 0xAAB4), (0xAAB7, 0xAAB8),
     (0xAABE, 0xAABF), (0xAAC1, 0xAAC1), (0xAADD, 0xAADD), (0xAAEC, 0xAAED), (0xAAF3, 0xAAF4),
     (0xAAF6, 0xAAF6), (0xAB5B, 0xAB5F), (0xAB69, 0xAB6B), (0xABE5, 0xABE5), (0xABE8, 0xABE8),
     (0xABED, 0xABED), (0xFB1E, 0xFB1E), (0xFBB2, 0xFBC2), (0xFE00, 0xFE0F), (0xFE13, 0xFE13),
     (0xFE20, 0xFE2F), (0xFE52, 0xFE52), (0xFE55, 0xFE55), (0xFEFF, 0xFEFF), (0xFF07, 0xFF07),
     (0xFF0E, 0xFF0E), (0xFF1A, 0xFF1A), (0xFF3E, 0xFF3E), (0xFF40, 0xFF40), (0xFF70, 0xFF70),
     (0xFF9E, 0xFF9F), (0xFFE3, 0xFFE3), (0xFFF9, 0xFFFB), (0x101FD, 0x101FD),
     (0x102E0, 0x102E0), (0x10376, 0x1037A), (0x10780, 0x10785), (0x10787, 0x107B0),
     (0x107B2, 0x107BA), (0x10A01, 0x10A03), (0x10A05, 0x10A06), (0x10A0C, 0x10A0F),
     (0x10A38, 0x10A3A), (0x10A3F, 0x10A3F), (0x10AE5, 0x10AE6), (0x10D24, 0x10D27),
     (0x10EAB, 0x10EAC), (0x10EFD, 0x10EFF), (0x10F46, 0x10F50), (0x10F82, 0x10F85),
     (0x11001, 0x11001), (0x11038, 0x11046), (0x11070, 0x11070), (0x11073, 0x11074),
     (0x1107F, 0x11081), (0x110B3, 0x110B6), (0x110B9, 0x110BA), (0x110BD, 0x110BD),
     (0x110C2, 0x110C2), (0x110CD, 0x110CD), (0x11100, 0x11102), (0x11127, 0x1112B),
     (0x1112D, 0x11134), (0x11173, 0x11173), (0x11180, 0x11181), (0x111B6, 0x111BE),
     (0x111C9, 0x111CC), (0x111CF, 0x111CF), (0x1122F, 0x11231), (0x11234, 0x11234),
     (0x11236, 0x11237), (0x1123E, 0x1123E), (0x11241, 0x11241), (0x112DF, 0x112DF),
     (0x112E3, 0x112EA), (0x11300, 0x11301), (0x1133B, 0x1133C), (0x11340, 0x11340),
     (0x11366, 0x1136C), (0x11370, 0x11374), (0x11438, 0x1143F), (0x11442, 0x11444),
     (0x11446, 0x11446), (0x1145E, 0x1145E), (0x114B3, 0x114B8), (0x114BA, 0x114BA),
     (0x114BF, 0x114C0), (0x114C2, 0x114C3), (0x115B2, 0x115B5), (0x115BC, 0x115BD),
     (0x115BF, 0x115C0), (0x115DC, 0x115DD), (0x11633, 0x1163A), (0x1163D, 0x1163D),
     (0x1163F, 0x11640), (0x116AB, 0x116AB), (0x116AD, 0x116AD), (0x116B0, 0x116B5),
     (0x116B7, 0x116B7), (0x1171D, 0x1171F), (0x11722, 0x11725), (0x11727, 0x1172B),
     (0x1182F, 0x11837), (0x11839, 0x1183A), (0x1193B, 0x1193C), (0x1193E, 0x1193E),
     (0x11943, 0x11943), (0x119D4, 0x119D7), (0x119DA, 0x119DB), (0x119E0, 0x119E0),
     (0x11A01, 0x11A0A), (0x11A33, 0x11A38), (0x11A3B, 0x11A3E), (0x11A47, 0x11A47),
     (0x11A51, 0x11A56), (0x11A59, 0x11A5B), (0x11A8A, 0x11A96), (0x11A98, 0x11A99),
     (0x11C30, 0x11C36), (0x11C38, 0x11C3D), (0x11C3F, 0x11C3F), (0x11C92, 0x11CA7),
     (0x11CAA, 0x11CB0), (0x11CB2, 0x11CB3), (0x11CB5, 0x11CB6), (0x11D31, 0x11D36),
     (0x11D3A, 0x11D3A), (0x11D3C, 0x11D3D), (0x11D3F, 0x11D45), (0x11D47, 0x11D47),
     (0x11D90, 0x11D91), (0x11D95, 0x11D95), (0x11D97, 0x11D97), (0x11EF3, 0x11EF4),
     (0x11F00, 0x11F01), (0x11F36, 0x11F3A), (0x11F40, 0x11F40), (0x11F42, 0x11F42),
     (0x13430, 0x13440), (0x13447, 0x13455), (0x16AF0, 0x16AF4), (0x16B30, 0x16B36),
     (0x16B40, 0x16B43), (0x16F4F, 0x16F4F), (0x16F8F, 0x16F9F), (0x16FE0, 0x16FE1),
     (0x16FE3, 0x16FE4), (0x1AFF0, 0x1AFF3), (0x1AFF5, 0x1AFFB), (0x1AFFD, 0x1AFFE),
     (0x1BC9D, 0x1BC9E), (0x1BCA0, 0x1BCA3), (0x1CF00, 0x1CF2D), (0x1CF30, 0x1CF46),
     (0x1D167, 0x1D169), (0x1D173, 0x1D182), (0x1D185, 0x1D18B), (0x1D1AA, 0x1D1AD),
     (0x1D242, 0x1D244), (0x1DA00, 0x1DA36), (0x1DA3B, 0x1DA6C), (0x1DA75, 0x1DA75),
     (0x1DA84, 0x1DA84), (0x1DA9B, 0x1DA9F), (0x1DAA1, 0x1DAAF), (0x1E000, 0x1E006),
     (0x1E008, 0x1E018), (0x1E01B, 0x1E021), (0x1E023, 0x1E024), (0x1E026, 0x1E02A),
     (0x1E030, 0x1E06D), (0x1E08F, 0x1E08F), (0x1E130, 0x1E13D), (0x1E2AE, 0x1E2AE),
     (0x1E2EC, 0x1E2EF), (0x1E4EB, 0x1E4EF), (0x1E8D0, 0x1E8D6), (0x1E944, 0x1E94B),
     (0x1F3FB, 0x1F3FF), (0xE0001, 0xE0001), (0xE0020, 0xE007F), (0xE0100, 0xE01EF)]"

definition simpleLower :: "nat \<Rightarrow> nat" where
  "simpleLower cp =
     (case find (\<lambda>(a, b, k, t). a \<le> cp \<and> cp \<le> b \<and> (cp - a) mod k = 0) lowerTable of
        None \<Rightarrow> cp
      | Some (a, b, k, t) \<Rightarrow> t + (cp - a))"

definition cased :: "nat \<Rightarrow> bool" where
  "cased cp = list_ex (\<lambda>(a, b). a \<le> cp \<and> cp \<le> b) casedRanges"

definition caseIgnorable :: "nat \<Rightarrow> bool" where
  "caseIgnorable cp = list_ex (\<lambda>(a, b). a \<le> cp \<and> cp \<le> b) caseIgnorableRanges"

text \<open>
  Final_Sigma: the code points before (nearest first) hold a cased letter after any
  case-ignorable ones, and the code points after do not.
\<close>

definition finalSigma :: "nat list \<Rightarrow> nat list \<Rightarrow> bool" where
  "finalSigma before after =
     ((case dropWhile caseIgnorable before of [] \<Rightarrow> False | b # _ \<Rightarrow> cased b)
      \<and> \<not> (case dropWhile caseIgnorable after of [] \<Rightarrow> False | a # _ \<Rightarrow> cased a))"

text \<open>
  The two mappings of SpecialCasing that hold in every locale, U+0130 and the capital
  sigma U+03A3, and the simple mapping for every other code point.
\<close>

fun lowerFrom :: "nat list \<Rightarrow> nat list \<Rightarrow> nat list" where
  "lowerFrom before [] = []"
| "lowerFrom before (c # rest) =
     (if c = 0x0130 then [0x0069, 0x0307]
      else if c = 0x03A3 then [if finalSigma before rest then 0x03C2 else 0x03C3]
      else [simpleLower c])
     @ lowerFrom (c # before) rest"

definition isLead :: "jschar \<Rightarrow> bool" where
  "isLead c = (0xD800 \<le> c \<and> c \<le> 0xDBFF)"

definition isTrail :: "jschar \<Rightarrow> bool" where
  "isTrail c = (0xDC00 \<le> c \<and> c \<le> 0xDFFF)"

fun codePoints :: "jsstring \<Rightarrow> nat list" where
  "codePoints [] = []"
| "codePoints [c] = [unat c]"
| "codePoints (c # d # s) =
     (if isLead c \<and> isTrail d
      then (0x10000 + (unat c - 0xD800) * 0x400 + (unat d - 0xDC00)) # codePoints s
      else unat c # codePoints (d # s))"

definition codeUnits :: "nat \<Rightarrow> jsstring" where
  "codeUnits cp =
     (if cp < 0x10000 then [of_nat cp]
      else [of_nat (0xD800 + (cp - 0x10000) div 0x400),
            of_nat (0xDC00 + (cp - 0x10000) mod 0x400)])"

definition toLowerCase :: "jsstring \<Rightarrow> jsstring" where
  "toLowerCase s = concat (map codeUnits (lowerFrom [] (codePoints s)))"

text \<open>\<open>s.includes(t)\<close>: \<open>t\<close> occurs in \<open>s\<close> as a contiguous run.\<close>

fun includes' :: "jsstring \<Rightarrow> jsstring \<Rightarrow> bool" where
  "includes' [] t = (t = [])"
| "includes' (c # s) t = (take (length t) (c # s) = t \<or> includes' s t)"

text \<open>A non-negative integer in a template literal: its decimal digits.\<close>

fun dec :: "nat \<Rightarrow> jsstring" where
  "dec n = (if n < 10 then [0x30 + of_nat n] else dec (n div 10) @ [0x30 + of_nat (n mod 10)])"

declare dec.simps [simp del]

section \<open>Regular expressions\<close>

text \<open>
  The patterns of the source are built from literal units, character classes (possibly
  negated, with ranges, single units and \<open>\s\<close>), concatenation, \<open>+\<close> and \<open>{n}\<close>.
  \<open>Never\<close>, \<open>Empty\<close>, \<open>Alt\<close> and \<open>Star\<close> are what the derivatives of those need.
\<close>

datatype citem = Range jschar jschar | Unit jschar | Space

datatype regex =
    Never
  | Empty
  | Lit jschar
  | Class bool "citem list"
  | Alt regex regex
  | Seq regex regex
  | Star regex

fun item_has :: "citem \<Rightarrow> jschar \<Rightarrow> bool" where
  "item_has (Range lo hi) c = (lo \<le> c \<and> c \<le> hi)"
| "item_has (Unit u) c = (c = u)"
| "item_has Space c = isWhiteSpace c"

text \<open>\<open>class_has True items\<close> is the negated class \<open>[^...]\<close>.\<close>

definition class_has :: "bool \<Rightarrow> citem list \<Rightarrow> jschar \<Rightarrow> bool" where
  "class_has negated items c = (list_ex (\<lambda>i. item_has i c) items \<noteq> negated)"

definition many1 :: "regex \<Rightarrow> regex" where
  "many1 r = Seq r (Star r)"

primrec exactly :: "nat \<Rightarrow> regex \<Rightarrow> regex" where
  "exactly 0 r = Empty"
| "exactly (Suc n) r = Seq r (exactly n r)"

fun nullable :: "regex \<Rightarrow> bool" where
  "nullable Never = False"
| "nullable Empty = True"
| "nullable (Lit u) = False"
| "nullable (Class n is) = False"
| "nullable (Alt r s) = (nullable r \<or> nullable s)"
| "nullable (Seq r s) = (nullable r \<and> nullable s)"
| "nullable (Star r) = True"

fun deriv :: "jschar \<Rightarrow> regex \<Rightarrow> regex" where
  "deriv c Never = Never"
| "deriv c Empty = Never"
| "deriv c (Lit u) = (if c = u then Empty else Never)"
| "deriv c (Class n is) = (if class_has n is c then Empty else Never)"
| "deriv c (Alt r s) = Alt (deriv c r) (deriv c s)"
| "deriv c (Seq r s) =
     (if nullable r then Alt (Seq (deriv c r) s) (deriv c s) else Seq (deriv c r) s)"
| "deriv c (Star r) = Seq (deriv c r) (Star r)"

text \<open>
  \<open>RegExp.prototype.test\<close> for a pattern written \<open>/^...$/\<close> with no flags: \<open>^\<close> and
  \<open>$\<close> are the two ends of the input, so the whole string has to match.
\<close>

definition test :: "regex \<Rightarrow> jsstring \<Rightarrow> bool" where
  "test r s = nullable (foldl (\<lambda>q c. deriv c q) r s)"

text \<open>
  \<open>s.replace(/[...]/g, t)\<close> for a pattern that is one character class: every code unit
  of the class is replaced by \<open>t\<close>.
\<close>

definition replace_class :: "bool \<Rightarrow> citem list \<Rightarrow> jsstring \<Rightarrow> jsstring \<Rightarrow> jsstring" where
  "replace_class negated items t s =
     concat (map (\<lambda>c. if class_has negated items c then t else [c]) s)"

subsection \<open>The language of a pattern\<close>

definition conc :: "jsstring set \<Rightarrow> jsstring set \<Rightarrow> jsstring set" where
  "conc A B = {u @ v | u v. u \<in> A \<and> v \<in> B}"

inductive_set star :: "jsstring set \<Rightarrow> jsstring set" for A :: "jsstring set" where
  star_nil: "[] \<in> star A"
| star_app: "u \<in> A \<Longrightarrow> v \<in> star A \<Longrightarrow> u @ v \<in> star A"

fun lang :: "regex \<Rightarrow> jsstring set" where
  "lang Never = {}"
| "lang Empty = {[]}"
| "lang (Lit u) = {[u]}"
| "lang (Class n is) = {[c] | c. class_has n is c}"
| "lang (Alt r s) = lang r \<union> lang s"
| "lang (Seq r s) = conc (lang r) (lang s)"
| "lang (Star r) = star (lang r)"

section \<open>Validation functions\<close>

text \<open>\<open>/^[^\s@]+@[^\s@]+\.[^\s@]+$/\<close>\<close>

definition emailRegex :: regex where
  "emailRegex =
     Seq (many1 (Class True [Space, Unit 0x40]))
       (Seq (Lit 0x40)
         (Seq (many1 (Class True [Space, Unit 0x40]))
           (Seq (Lit 0x2E) (many1 (Class True [Space, Unit 0x40])))))"

definition validateEmail :: "jsstring \<Rightarrow> bool" where
  "validateEmail e = test emailRegex e"

text \<open>\<open>/^[0-9]{10}$/\<close>\<close>

definition phoneRegex :: regex where
  "phoneRegex = exactly 10 (Class False [Range 0x30 0x39])"

definition validatePhone :: "jsstring \<Rightarrow> bool" where
  "validatePhone p = test phoneRegex p"

definition validateLinkedIn :: "jsstring \<Rightarrow> bool" where
  "validateLinkedIn l =
     (if l = [] then True else includes' (toLowerCase l) (js ''linkedin.com/in/''))"

section \<open>The upload\<close>

text \<open>One file part of the multipart body, as multer sees it.\<close>

record upfile =
  fieldname :: jsstring
  originalname :: jsstring
  mimetype :: jsstring
  size_bytes :: nat

text \<open>
  The operations on the outside world that can fail, and the environment of one request:
  the clock read by \<open>Date.now()\<close> and the operations that fail during this request.
\<close>

datatype io = Upload | FindByEmail | FindByPhone | Create | Unlink

record env =
  now :: nat
  failing :: "io list"

record applicant =
  id' :: nat
  full_name :: jsstring
  email' :: jsstring
  phone' :: jsstring
  linkedin' :: "jsstring option"
  resume_path :: jsstring

datatype logline = UploadError | ApiError | CleanupError | Created nat

text \<open>
  The world: the names of the files in the upload directory, the applicants table with
  the next value of its serial column, and the console.
\<close>

record world =
  files :: "jsstring list"
  applicants :: "applicant list"
  next_id :: nat
  console :: "logline list"

definition log :: "logline \<Rightarrow> world \<Rightarrow> world" where
  "log l w = w\<lparr>console := console w @ [l]\<rparr>"

datatype multer_error =
  LIMIT_FILE_SIZE | LIMIT_FILE_COUNT | LIMIT_UNEXPECTED_FILE | FileFilterError | StorageError

text \<open>\<open>allowedMimeTypes.includes(file.mimetype)\<close>\<close>

definition fileFilter :: "upfile \<Rightarrow> bool" where
  "fileFilter f =
     (mimetype f \<in> set [js ''application/pdf'',
        js ''application/vnd.openxmlformats-officedocument.wordprocessingml.document''])"

text \<open>\<open>file.originalname.replace(/[^a-zA-Z0-9.-]/g, '_')\<close>\<close>

definition sanitizedName :: "jsstring \<Rightarrow> jsstring" where
  "sanitizedName name =
     replace_class True
       [Range 0x61 0x7A, Range 0x41 0x5A, Range 0x30 0x39, Unit 0x2E, Unit 0x2D]
       (js ''_'') name"

definition filename :: "env \<Rightarrow> upfile \<Rightarrow> jsstring" where
  "filename env f = dec (now env) @ js ''-'' @ sanitizedName (originalname f)"

text \<open>
  \<open>upload.single('resume')\<close> under the configuration of the source. The parser hands
  the first file part to multer and, with \<open>files: 1\<close>, reports every further file part
  as over the limit. Multer ignores a part with an empty file name; it refuses a part
  outside the field \<open>resume\<close>, then a part that \<open>fileFilter\<close> rejects; it then writes
  the part under the generated name and stops when the size passes 5 MiB. The first
  error wins. On an error multer removes what it has written; \<open>req.file\<close> is set as soon
  as a part has been written completely, and stays set when a later part brings the
  error. The result is the error, if any, with \<open>req.file\<close> (its file name; its path is
  that name inside the upload directory) and the world.
\<close>

definition upload_single ::
  "env \<Rightarrow> upfile list \<Rightarrow> world
     \<Rightarrow> (multer_error \<times> jsstring option \<times> world) + (jsstring option \<times> world)" where
  "upload_single env ps w =
     (case ps of
        [] \<Rightarrow> Inr (None, w)
      | f # rest \<Rightarrow>
          if originalname f = [] then
            (if rest = [] then Inr (None, w) else Inl (LIMIT_FILE_COUNT, None, w))
          else if fieldname f \<noteq> js ''resume'' then Inl (LIMIT_UNEXPECTED_FILE, None, w)
          else if \<not> fileFilter f then Inl (FileFilterError, None, w)
          else if Upload \<in> set (failing env) then Inl (StorageError, None, w)
          else if 5 * 1024 * 1024 < size_bytes f then
            Inl (LIMIT_FILE_SIZE, None,
                 w\<lparr>files := removeAll (filename env f) (files w)\<rparr>)
          else if rest = [] then
            Inr (Some (filename env f),
                 w\<lparr>files := List.insert (filename env f) (files w)\<rparr>)
          else
            Inl (LIMIT_FILE_COUNT, Some (filename env f),
                 w\<lparr>files := removeAll (filename env f) (files w)\<rparr>))"

section \<open>File system and datastore\<close>

datatype exn = FsError | PrismaError

text \<open>\<open>fs.unlinkSync\<close> throws when the file is not there or the deletion fails.\<close>

definition unlinkSync :: "env \<Rightarrow> jsstring \<Rightarrow> world \<Rightarrow> exn + world" where
  "unlinkSync env name w =
     (if Unlink \<in> set (failing env) \<or> name \<notin> set (files w) then Inl FsError
      else Inr (w\<lparr>files := removeAll name (files w)\<rparr>))"

text \<open>\<open>prisma.applicant.findFirst({ where: ... })\<close>: the first row with an equal column.\<close>

definition findFirst ::
  "env \<Rightarrow> io \<Rightarrow> (applicant \<Rightarrow> bool) \<Rightarrow> world \<Rightarrow> exn + applicant option" where
  "findFirst env op wh w =
     (if op \<in> set (failing env) then Inl PrismaError else Inr (find wh (applicants w)))"

text \<open>
  \<open>prisma.applicant.create\<close>: the table has no unique column but the serial \<open>id\<close>, so an
  insertion fails only when the datastore does.
\<close>

definition create ::
  "env \<Rightarrow> jsstring \<Rightarrow> jsstring \<Rightarrow> jsstring \<Rightarrow> jsstring option \<Rightarrow> jsstring \<Rightarrow> world
     \<Rightarrow> exn + (applicant \<times> world)" where
  "create env n e p l r w =
     (if Create \<in> set (failing env) then Inl PrismaError
      else
        let row = \<lparr>id' = next_id w, full_name = n, email' = e, phone' = p,
                   linkedin' = l, resume_path = r\<rparr>
        in Inr (row, w\<lparr>applicants := applicants w @ [row], next_id := Suc (next_id w)\<rparr>))"

section \<open>The handler\<close>

text \<open>
  The request: \<open>req.method\<close>, the text fields of \<open>req.body\<close> (absent fields are
  \<open>undefined\<close>) and the file parts of the multipart body.
\<close>

record request =
  req_method :: jsstring
  fullName :: "jsstring option"
  email :: "jsstring option"
  phone :: "jsstring option"
  linkedin :: "jsstring option"
  parts :: "upfile list"

datatype json = Error string | Message string nat

type_synonym response = "nat \<times> json"

text \<open>
  The \<open>catch\<close> block: it logs, deletes the uploaded file when \<open>req.file\<close> is set, logging a
  failure of that deletion, and answers 500.
\<close>

definition catch_block :: "env \<Rightarrow> jsstring option \<Rightarrow> world \<Rightarrow> response \<times> world" where
  "catch_block env file w =
     (let w1 = log ApiError w;
          w2 = (case file of
                  None \<Rightarrow> w1
                | Some name \<Rightarrow>
                    (case unlinkSync env name w1 of
                       Inl _ \<Rightarrow> log CleanupError w1
                     | Inr w' \<Rightarrow> w'))
      in ((500, Error ''Internal server error''), w2))"

text \<open>
  The body of \<open>try\<close> after the upload, with \<open>req.file\<close> as \<open>file\<close>. An operation that
  throws leads to the \<open>catch\<close> block.
\<close>

definition after_upload ::
  "env \<Rightarrow> request \<Rightarrow> jsstring option \<Rightarrow> world \<Rightarrow> response \<times> world" where
  "after_upload env req file w =
     (case fullName req of
        None \<Rightarrow> ((400, Error ''Full name is required''), w)
      | Some n \<Rightarrow>
     if trim n = [] then ((400, Error ''Full name is required''), w)
     else
     (case email req of
        None \<Rightarrow> ((400, Error ''Email is required''), w)
      | Some e \<Rightarrow>
     if trim e = [] then ((400, Error ''Email is required''), w)
     else if \<not> validateEmail e then ((400, Error ''Invalid email format''), w)
     else
     (case phone req of
        None \<Rightarrow> ((400, Error ''Phone number is required''), w)
      | Some p \<Rightarrow>
     if trim p = [] then ((400, Error ''Phone number is required''), w)
     else if \<not> validatePhone p then
       ((400, Error ''Phone number must be exactly 10 digits''), w)
     else if (case linkedin req of None \<Rightarrow> False
              | Some l \<Rightarrow> l \<noteq> [] \<and> \<not> validateLinkedIn l) then
       ((400, Error ''Invalid LinkedIn URL format''), w)
     else
     (case file of
        None \<Rightarrow> ((400, Error ''Resume file is required''), w)
      | Some name \<Rightarrow>
     (case findFirst env FindByEmail (\<lambda>a. email' a = e) w of
        Inl _ \<Rightarrow> catch_block env file w
      | Inr (Some _) \<Rightarrow>
          (case unlinkSync env name w of
             Inl _ \<Rightarrow> catch_block env file w
           | Inr w' \<Rightarrow>
               ((400, Error ''An application with this email already exists''), w'))
      | Inr None \<Rightarrow>
     (case findFirst env FindByPhone (\<lambda>a. phone' a = p) w of
        Inl _ \<Rightarrow> catch_block env file w
      | Inr (Some _) \<Rightarrow>
          (case unlinkSync env name w of
             Inl _ \<Rightarrow> catch_block env file w
           | Inr w' \<Rightarrow>
               ((400, Error ''An application with this phone number already exists''), w'))
      | Inr None \<Rightarrow>
     (case create env (trim n) (toLowerCase (trim e)) (trim p)
             (case linkedin req of
                None \<Rightarrow> None
              | Some l \<Rightarrow> if trim l = [] then None else Some (trim l))
             (js ''resumes/'' @ name) w of
        Inl _ \<Rightarrow> catch_block env file w
      | Inr (row, w') \<Rightarrow>
          ((200, Message ''Application submitted successfully!'' (id' row)),
           log (Created (id' row)) w'))))))))"

text \<open>
  The handler. When the upload fails, the callback has already answered; the \<open>catch\<close>
  block then runs with \<open>req.file\<close> as multer left it, and the answer it attempts comes
  after the one that was sent.
\<close>

definition handler :: "env \<Rightarrow> request \<Rightarrow> world \<Rightarrow> response \<times> world" where
  "handler env req w =
     (if req_method req \<noteq> js ''POST'' then ((405, Error ''Method Not Allowed''), w)
      else
        (case upload_single env (parts req) w of
           Inl (err, file, w1) \<Rightarrow>
             ((if err = LIMIT_FILE_SIZE then
                 (400, Error ''File size too large. Maximum 5MB allowed.'')
               else if err = FileFilterError then
                 (400, Error ''Only PDF and DOCX files are allowed'')
               else (500, Error ''File upload failed'')),
              snd (catch_block env file (log UploadError w1)))
         | Inr (file, w1) \<Rightarrow> after_upload env req file w1))"

section \<open>The properties in the words of the specification\<close>

text \<open>
  A decimal digit; a character that is neither white space nor \<open>@\<close>; and the shape
  \<open>local-part@domain.tld\<close>: one or more such characters, \<open>@\<close>, one or more, \<open>.\<close>, one
  or more.
\<close>

definition isDigit :: "jschar \<Rightarrow> bool" where
  "isDigit c = (0x30 \<le> c \<and> c \<le> 0x39)"

definition plain :: "jschar \<Rightarrow> bool" where
  "plain c = (\<not> isWhiteSpace c \<and> c \<noteq> 0x40)"

definition email_shape :: "jsstring \<Rightarrow> bool" where
  "email_shape s =
     (\<exists>a b c. s = a @ [0x40] @ b @ [0x2E] @ c
        \<and> a \<noteq> [] \<and> b \<noteq> [] \<and> c \<noteq> []
        \<and> list_all plain a \<and> list_all plain b \<and> list_all plain c)"

text \<open>
  White space stripped from both ends: \<open>t\<close> is \<open>s\<close> without a run of white space
  before and after, and does not begin or end with white space.
\<close>

definition stripped :: "jsstring \<Rightarrow> jsstring \<Rightarrow> bool" where
  "stripped s t =
     ((\<exists>a b. s = a @ t @ b \<and> list_all isWhiteSpace a \<and> list_all isWhiteSpace b)
      \<and> (t = [] \<or> (\<not> isWhiteSpace (hd t) \<and> \<not> isWhiteSpace (last t))))"

text \<open>
  Lower-casing of an ASCII code unit, and the number that a string of decimal digits
  denotes.
\<close>

definition lowerUnit :: "jschar \<Rightarrow> jschar" where
  "lowerUnit c = (if 0x41 \<le> c \<and> c \<le> 0x5A then c + 0x20 else c)"

definition decimal_value :: "jsstring \<Rightarrow> nat" where
  "decimal_value ds = foldl (\<lambda>n c. 10 * n + (unat c - 0x30)) 0 ds"

text \<open>
  The characters that sanitization keeps: \<open>[A-Za-z0-9.-]\<close>.
\<close>

definition safe :: "jschar \<Rightarrow> bool" where
  "safe c = ((0x41 \<le> c \<and> c \<le> 0x5A) \<or> (0x61 \<le> c \<and> c \<le> 0x7A)
             \<or> (0x30 \<le> c \<and> c \<le> 0x39) \<or> c = 0x2E \<or> c = 0x2D)"

text \<open>
  Every field check that a submission violates, in the fixed order full name, email,
  phone, linkedin, file present, with one message per field.
\<close>

definition field_errors :: "request \<Rightarrow> jsstring option \<Rightarrow> string list" where
  "field_errors req file =
     (case fullName req of
        None \<Rightarrow> [''Full name is required'']
      | Some n \<Rightarrow> if trim n = [] then [''Full name is required''] else [])
     @ (case email req of
        None \<Rightarrow> [''Email is required'']
      | Some e \<Rightarrow>
          if trim e = [] then [''Email is required'']
          else if \<not> validateEmail e then [''Invalid email format'']
          else [])
     @ (case phone req of
        None \<Rightarrow> [''Phone number is required'']
      | Some p \<Rightarrow>
          if trim p = [] then [''Phone number is required'']
          else if \<not> validatePhone p then [''Phone number must be exactly 10 digits'']
          else [])
     @ (case linkedin req of
        None \<Rightarrow> []
      | Some l \<Rightarrow>
          if l \<noteq> [] \<and> \<not> validateLinkedIn l then [''Invalid LinkedIn URL format'']
          else [])
     @ (case file of
        None \<Rightarrow> [''Resume file is required'']
      | Some name \<Rightarrow> [])"

section \<open>Example submissions\<close>

text \<open>
  A world with one applicant, and a submission with a new phone number whose email
  differs from that applicant's in case only.
\<close>

definition example_env :: env where
  "example_env = \<lparr>now = 1700000000000, failing = []\<rparr>"

definition example_file :: upfile where
  "example_file = \<lparr>fieldname = js ''resume'', originalname = js ''my cv.pdf'',
     mimetype = js ''application/pdf'', size_bytes = 1000\<rparr>"

definition example_world :: world where
  "example_world =
     \<lparr>files = [js ''1699999999999-old.pdf''],
      applicants = [\<lparr>id' = 1, full_name = js ''Ann Lee'', email' = js ''a@b.com'',
        phone' = js ''1234567890'', linkedin' = None,
        resume_path = js ''resumes/1699999999999-old.pdf''\<rparr>],
      next_id = 2, console = []\<rparr>"

definition example_request :: request where
  "example_request =
     \<lparr>req_method = js ''POST'', fullName = Some (js ''Bob Ray''), email = Some (js ''A@B.com''),
      phone = Some (js ''0987654321''), linkedin = None, parts = [example_file]\<rparr>"

text \<open>
  The world after the upload of \<open>example_file\<close>.
\<close>

definition uploaded_world :: world where
  "uploaded_world =
     example_world\<lparr>files := [js ''1700000000000-my_cv.pdf'', js ''1699999999999-old.pdf'']\<rparr>"

text \<open>
  Variations: no full name with a bad email and a bad phone; the stored email as it is;
  a failing \<open>unlink\<close>; a phone of two digits; a phone with dashes; an email with
  no \<open>@\<close>.
\<close>

definition invalid_request :: request where
  "invalid_request =
     example_request\<lparr>fullName := None, email := Some (js ''nobody''), phone := Some (js ''12'')\<rparr>"

definition duplicate_request :: request where
  "duplicate_request = example_request\<lparr>email := Some (js ''a@b.com'')\<rparr>"

definition unlink_fails :: env where
  "unlink_fails = example_env\<lparr>failing := [Unlink]\<rparr>"

definition short_phone_request :: request where
  "short_phone_request = example_request\<lparr>phone := Some (js ''12'')\<rparr>"

definition dashed_phone_request :: request where
  "dashed_phone_request = example_request\<lparr>phone := Some (js ''123-456-7890'')\<rparr>"

definition no_at_request :: request where
  "no_at_request = example_request\<lparr>email := Some (js ''nobody'')\<rparr>"

text \<open>
  A submission with white space around the name and the linkedin address, and an
  email that begins with the capital letter U+00C9.
\<close>

definition padded_request :: request where
  "padded_request =
     example_request\<lparr>fullName := Some (js ''  Bob Ray ''),
       email := Some (0xC9 # js ''@B.com''),
       linkedin := Some (js '' https://www.LinkedIn.com/in/bob '')\<rparr>"

section \<open>The matcher decides the language of a pattern\<close>

lemma nil_in_conc: "[] \<in> conc A B \<longleftrightarrow> [] \<in> A \<and> [] \<in> B"
  by (auto simp: conc_def)

lemma cons_in_conc:
  "c # w \<in> conc A B \<longleftrightarrow>
     (\<exists>u v. w = u @ v \<and> c # u \<in> A \<and> v \<in> B) \<or> ([] \<in> A \<and> c # w \<in> B)"
  by (auto simp: conc_def Cons_eq_append_conv)

lemma in_conc: "w \<in> conc A B \<longleftrightarrow> (\<exists>u v. w = u @ v \<and> u \<in> A \<and> v \<in> B)"
  by (auto simp: conc_def)

lemma star_cons_split:
  assumes "x \<in> star A" and "x = c # w"
  shows "\<exists>u v. w = u @ v \<and> c # u \<in> A \<and> v \<in> star A"
  using assms
proof (induction rule: star.induct)
  case star_nil
  then show ?case by simp
next
  case (star_app u v)
  show ?case
  proof (cases u)
    case Nil
    with star_app show ?thesis by simp
  next
    case (Cons d u')
    with star_app.prems have "d = c" and "w = u' @ v" by simp_all
    with star_app.hyps Cons show ?thesis by blast
  qed
qed

lemma cons_in_star:
  "c # w \<in> star A \<longleftrightarrow> (\<exists>u v. w = u @ v \<and> c # u \<in> A \<and> v \<in> star A)"
proof
  assume "c # w \<in> star A"
  then show "\<exists>u v. w = u @ v \<and> c # u \<in> A \<and> v \<in> star A"
    by (rule star_cons_split) simp
next
  assume "\<exists>u v. w = u @ v \<and> c # u \<in> A \<and> v \<in> star A"
  then obtain u v where "w = u @ v" "c # u \<in> A" "v \<in> star A" by blast
  then show "c # w \<in> star A"
    using star_app [of "c # u" A v] by simp
qed

lemma nullable_lang: "nullable r \<longleftrightarrow> [] \<in> lang r"
  by (induction r) (auto simp: nil_in_conc intro: star_nil)

lemma lang_deriv: "w \<in> lang (deriv c r) \<longleftrightarrow> c # w \<in> lang r"
proof (induction r arbitrary: w)
  case (Seq r s)
  have "w \<in> conc (lang (deriv c r)) (lang s)
      \<longleftrightarrow> (\<exists>u v. w = u @ v \<and> c # u \<in> lang r \<and> v \<in> lang s)"
    using Seq.IH(1) by (auto simp: conc_def)
  then show ?case
    using Seq.IH(2) by (simp add: cons_in_conc nullable_lang)
next
  case (Star r)
  have "w \<in> conc (lang (deriv c r)) (star (lang r))
      \<longleftrightarrow> (\<exists>u v. w = u @ v \<and> c # u \<in> lang r \<and> v \<in> star (lang r))"
    using Star.IH by (auto simp: conc_def)
  then show ?case
    by (simp add: cons_in_star)
qed auto

lemma foldl_deriv_lang:
  "nullable (foldl (\<lambda>q c. deriv c q) r s) \<longleftrightarrow> s \<in> lang r"
  by (induction s arbitrary: r) (simp_all add: nullable_lang lang_deriv)

lemma test_lang: "test r s \<longleftrightarrow> s \<in> lang r"
  by (simp add: test_def foldl_deriv_lang)

lemma star_class:
  "star {[c] | c. P c} = {w. list_all P w}"
proof (rule set_eqI, rule iffI)
  fix w assume "w \<in> star {[c] | c. P c}"
  then show "w \<in> {w. list_all P w}"
    by (induction rule: star.induct) auto
next
  fix w assume "w \<in> {w. list_all P w}"
  then have "list_all P w" by simp
  then show "w \<in> star {[c] | c. P c}"
  proof (induction w)
    case Nil
    show ?case by (rule star_nil)
  next
    case (Cons a w)
    then have "[a] \<in> {[c] | c. P c}" and "w \<in> star {[c] | c. P c}" by auto
    then have "[a] @ w \<in> star {[c] | c. P c}" by (rule star_app)
    then show ?case by simp
  qed
qed

lemma lang_many1_class:
  "lang (many1 (Class n is)) = {w. w \<noteq> [] \<and> list_all (class_has n is) w}"
proof (rule set_eqI)
  fix w
  show "w \<in> lang (many1 (Class n is))
     \<longleftrightarrow> w \<in> {w. w \<noteq> [] \<and> list_all (class_has n is) w}"
    by (cases w) (simp_all add: many1_def star_class nil_in_conc cons_in_conc)
qed

lemma lang_exactly_class:
  "lang (exactly k (Class n is)) = {w. length w = k \<and> list_all (class_has n is) w}"
proof (induction k)
  case 0
  show ?case by auto
next
  case (Suc k)
  show ?case
  proof (rule set_eqI)
    fix w
    show "w \<in> lang (exactly (Suc k) (Class n is))
       \<longleftrightarrow> w \<in> {w. length w = Suc k \<and> list_all (class_has n is) w}"
      by (cases w) (auto simp: Suc nil_in_conc cons_in_conc)
  qed
qed

section \<open>Lower-casing on ASCII and on white space\<close>

lemma find_none: "list_all (\<lambda>x. \<not> P x) xs \<Longrightarrow> find P xs = None"
  by (induction xs) simp_all

lemma simpleLower_gap:
  assumes "lo \<le> cp" and "cp \<le> hi"
    and "list_all (\<lambda>(a, b, k, t). hi < a \<or> b < lo) lowerTable"
  shows "simpleLower cp = cp"
proof -
  from assms have
    "list_all (\<lambda>x. \<not> (case x of (a, b, k, t) \<Rightarrow> a \<le> cp \<and> cp \<le> b \<and> (cp - a) mod k = 0))
       lowerTable"
    by (auto simp: list_all_iff)
  then have "find (\<lambda>(a, b, k, t). a \<le> cp \<and> cp \<le> b \<and> (cp - a) mod k = 0) lowerTable = None"
    by (rule find_none)
  then show ?thesis by (simp add: simpleLower_def)
qed

lemma simpleLower_upper: "0x41 \<le> cp \<Longrightarrow> cp \<le> 0x5A \<Longrightarrow> simpleLower cp = cp + 0x20"
  by (simp add: simpleLower_def lowerTable_def)

lemma simpleLower_ascii:
  assumes "cp < 0x80"
  shows "simpleLower cp = (if 0x41 \<le> cp \<and> cp \<le> 0x5A then cp + 0x20 else cp)"
proof -
  consider "cp \<le> 0x40" | "0x41 \<le> cp \<and> cp \<le> 0x5A" | "0x5B \<le> cp \<and> cp \<le> 0x7F"
    using assms by linarith
  then show ?thesis
  proof cases
    case 1
    have "simpleLower cp = cp"
      by (rule simpleLower_gap [of 0 cp "0x40"]) (use 1 in \<open>simp_all add: lowerTable_def\<close>)
    with 1 show ?thesis by simp
  next
    case 2
    then show ?thesis by (simp add: simpleLower_upper)
  next
    case 3
    have "simpleLower cp = cp"
      by (rule simpleLower_gap [of "0x5B" cp "0x7F"]) (use 3 in \<open>simp_all add: lowerTable_def\<close>)
    with 3 show ?thesis by simp
  qed
qed

lemma codePoints_no_lead: "list_all (\<lambda>c. \<not> isLead c) s \<Longrightarrow> codePoints s = map unat s"
  by (induction s rule: codePoints.induct) simp_all

lemma lowerFrom_simple:
  "list_all (\<lambda>cp. cp \<noteq> 0x0130 \<and> cp \<noteq> 0x03A3) cps
     \<Longrightarrow> lowerFrom before cps = map simpleLower cps"
  by (induction cps arbitrary: before) simp_all

lemma toLowerCase_pointwise:
  assumes "list_all (\<lambda>c. \<not> isLead c \<and> unat c \<noteq> 0x0130 \<and> unat c \<noteq> 0x03A3
             \<and> simpleLower (unat c) < 0x10000) s"
  shows "toLowerCase s = map (\<lambda>c. of_nat (simpleLower (unat c))) s"
proof -
  from assms have "codePoints s = map unat s"
    by (intro codePoints_no_lead) (simp add: list_all_iff)
  moreover from assms have "lowerFrom [] (map unat s) = map simpleLower (map unat s)"
    by (intro lowerFrom_simple) (simp add: list_all_iff)
  moreover from assms have
    "concat (map codeUnits (map simpleLower (map unat s)))
       = map (\<lambda>c. of_nat (simpleLower (unat c))) s"
    by (induction s) (simp_all add: codeUnits_def)
  ultimately show ?thesis by (simp add: toLowerCase_def)
qed

lemma toLowerCase_ascii:
  assumes "list_all (\<lambda>c. c < 0x80) s"
  shows "toLowerCase s = map lowerUnit s"
proof -
  have u: "unat c < 0x80" if "c < 0x80" for c :: jschar
    using that by (simp add: word_less_nat_alt)
  have p: "\<not> isLead c \<and> unat c \<noteq> 0x0130 \<and> unat c \<noteq> 0x03A3 \<and> simpleLower (unat c) < 0x10000"
    if "c < 0x80" for c :: jschar
    using u [OF that] by (auto simp: isLead_def word_le_nat_alt simpleLower_ascii)
  have q: "of_nat (simpleLower (unat c)) = lowerUnit c" if "c < 0x80" for c :: jschar
    using u [OF that] by (auto simp: simpleLower_ascii lowerUnit_def word_le_nat_alt)
  from assms p have "toLowerCase s = map (\<lambda>c. of_nat (simpleLower (unat c))) s"
    by (intro toLowerCase_pointwise) (simp add: list_all_iff)
  also from assms q have "\<dots> = map lowerUnit s"
    by (simp add: list_all_iff)
  finally show ?thesis .
qed

lemma simpleLower_white:
  assumes "cp \<le> 0x40 \<or> cp = 0xA0 \<or> cp = 0x1680 \<or> (0x2000 \<le> cp \<and> cp \<le> 0x205F)
      \<or> cp = 0x3000 \<or> cp = 0xFEFF"
  shows "simpleLower cp = cp"
proof -
  have "simpleLower cp = cp" if "cp \<le> 0x40"
    by (rule simpleLower_gap [of 0 cp "0x40"]) (use that in \<open>simp_all add: lowerTable_def\<close>)
  moreover have "simpleLower 0xA0 = 0xA0"
    by (rule simpleLower_gap [of "0xA0" _ "0xA0"]) (simp_all add: lowerTable_def)
  moreover have "simpleLower 0x1680 = 0x1680"
    by (rule simpleLower_gap [of "0x1680" _ "0x1680"]) (simp_all add: lowerTable_def)
  moreover have "simpleLower cp = cp" if "0x2000 \<le> cp \<and> cp \<le> 0x205F"
    by (rule simpleLower_gap [of "0x2000" cp "0x205F"])
      (use that in \<open>simp_all add: lowerTable_def\<close>)
  moreover have "simpleLower 0x3000 = 0x3000"
    by (rule simpleLower_gap [of "0x3000" _ "0x3000"]) (simp_all add: lowerTable_def)
  moreover have "simpleLower 0xFEFF = 0xFEFF"
    by (rule simpleLower_gap [of "0xFEFF" _ "0xFEFF"]) (simp_all add: lowerTable_def)
  ultimately show ?thesis using assms by blast
qed

lemma white_point:
  assumes "isWhiteSpace c"
  shows "\<not> isLead c \<and> unat c \<noteq> 0x0130 \<and> unat c \<noteq> 0x03A3 \<and> simpleLower (unat c) = unat c"
proof -
  from assms have "unat c \<le> 0x40 \<or> unat c = 0xA0 \<or> unat c = 0x1680
      \<or> (0x2000 \<le> unat c \<and> unat c \<le> 0x205F) \<or> unat c = 0x3000 \<or> unat c = 0xFEFF"
    by (auto simp: isWhiteSpace_def word_le_nat_alt)
  then have "simpleLower (unat c) = unat c" by (rule simpleLower_white)
  moreover from assms have "\<not> isLead c \<and> unat c \<noteq> 0x0130 \<and> unat c \<noteq> 0x03A3"
    by (auto simp: isWhiteSpace_def isLead_def word_le_nat_alt)
  ultimately show ?thesis by simp
qed

lemma toLowerCase_white: "list_all isWhiteSpace s \<Longrightarrow> toLowerCase s = s"
proof -
  assume a: "list_all isWhiteSpace s"
  then have "toLowerCase s = map (\<lambda>c. of_nat (simpleLower (unat c))) s"
    using white_point unsigned_less [where 'b = 16]
    by (intro toLowerCase_pointwise) (auto simp: list_all_iff)
  also from a have "\<dots> = map (\<lambda>c. c) s"
    using white_point by (intro map_cong) (auto simp: list_all_iff)
  finally show ?thesis by simp
qed

section \<open>Strings and validators\<close>

lemma digit_class: "class_has False [Range 0x30 0x39] = isDigit"
  by (rule ext) (simp add: class_has_def isDigit_def)

lemma plain_class: "class_has True [Space, Unit 0x40] = plain"
  by (rule ext) (auto simp: class_has_def plain_def)

lemma validatePhone_iff: "validatePhone p \<longleftrightarrow> length p = 10 \<and> list_all isDigit p"
  by (simp add: validatePhone_def phoneRegex_def test_lang lang_exactly_class digit_class)

lemma validateEmail_iff: "validateEmail e \<longleftrightarrow> email_shape e"
  unfolding validateEmail_def emailRegex_def test_lang email_shape_def
  by (simp add: in_conc lang_many1_class plain_class) blast

lemma digit_not_space: "isDigit c \<Longrightarrow> \<not> isWhiteSpace c"
  unfolding isDigit_def isWhiteSpace_def by (auto simp: word_le_nat_alt)

lemma trim_Nil: "trim [] = []"
  by (simp add: trim_def)

lemma trim_no_space: "list_all (\<lambda>c. \<not> isWhiteSpace c) s \<Longrightarrow> trim s = s"
proof (cases s rule: rev_cases)
  case Nil
  then show ?thesis by (simp add: trim_def)
next
  case (snoc ys y)
  assume a: "list_all (\<lambda>c. \<not> isWhiteSpace c) s"
  then have "dropWhile isWhiteSpace s = s" by (cases s) simp_all
  with a snoc show ?thesis by (simp add: trim_def)
qed

lemma dropWhile_keeps: "c \<in> set s \<Longrightarrow> \<not> P c \<Longrightarrow> c \<in> set (dropWhile P s)"
  by (induction s) auto

lemma trim_nonempty:
  assumes "c \<in> set s" and "\<not> isWhiteSpace c"
  shows "trim s \<noteq> []"
proof -
  from assms have "c \<in> set (rev (dropWhile isWhiteSpace s))"
    by (simp add: dropWhile_keeps)
  then have "c \<in> set (dropWhile isWhiteSpace (rev (dropWhile isWhiteSpace s)))"
    using assms(2) by (rule dropWhile_keeps)
  then have "dropWhile isWhiteSpace (rev (dropWhile isWhiteSpace s)) \<noteq> []"
    by (cases "dropWhile isWhiteSpace (rev (dropWhile isWhiteSpace s))") simp_all
  then show ?thesis
    by (simp add: trim_def del: dropWhile_eq_Nil_conv)
qed

lemma trim_empty_iff: "trim s = [] \<longleftrightarrow> list_all isWhiteSpace s"
proof
  assume "trim s = []"
  then show "list_all isWhiteSpace s"
    using trim_nonempty [of _ s] by (auto simp: list_all_iff)
next
  assume "list_all isWhiteSpace s"
  then have "dropWhile isWhiteSpace s = []" by (induction s) simp_all
  then show "trim s = []" by (simp add: trim_def del: dropWhile_eq_Nil_conv)
qed

lemma validateEmail_trim: "validateEmail e \<Longrightarrow> trim e \<noteq> []"
proof -
  assume "validateEmail e"
  then have "0x40 \<in> set e" by (auto simp: validateEmail_iff email_shape_def)
  moreover have "\<not> isWhiteSpace 0x40" by (simp add: isWhiteSpace_def)
  ultimately show ?thesis by (rule trim_nonempty)
qed

lemma validatePhone_trim: "validatePhone p \<Longrightarrow> trim p = p"
proof -
  assume "validatePhone p"
  then have "list_all isDigit p" by (simp add: validatePhone_iff)
  then have "list_all (\<lambda>c. \<not> isWhiteSpace c) p"
    by (auto simp: list_all_iff digit_not_space)
  then show ?thesis by (rule trim_no_space)
qed

lemma linkedin_trim:
  assumes "l \<noteq> []" and "validateLinkedIn l"
  shows "trim l \<noteq> []"
proof
  assume "trim l = []"
  then have w: "list_all isWhiteSpace l" by (simp add: trim_empty_iff)
  have inc: "includes' s t \<Longrightarrow> t \<noteq> [] \<Longrightarrow> hd t \<in> set s" for s t :: jsstring
  proof (induction s)
    case Nil
    then show ?case by simp
  next
    case (Cons c s)
    show ?case
    proof (cases "take (length t) (c # s) = t")
      case True
      with Cons.prems(2) have "hd t = c" by (cases t) auto
      then show ?thesis by simp
    next
      case False
      with Cons show ?thesis by simp
    qed
  qed
  from assms have "includes' (toLowerCase l) (js ''linkedin.com/in/'')"
    by (simp add: validateLinkedIn_def)
  with w have "includes' l (js ''linkedin.com/in/'')"
    by (simp add: toLowerCase_white)
  then have "0x6C \<in> set l"
    using inc [of l "js ''linkedin.com/in/''"] by (simp add: js_def)
  with w have "isWhiteSpace 0x6C" by (auto simp: list_all_iff)
  then show False by (simp add: isWhiteSpace_def)
qed

lemma trim_stripped: "stripped s (trim s)"
proof -
  let ?d = "dropWhile isWhiteSpace s"
  let ?b = "rev (takeWhile isWhiteSpace (rev ?d))"
  have "?d = rev (takeWhile isWhiteSpace (rev ?d) @ dropWhile isWhiteSpace (rev ?d))"
    by (simp only: takeWhile_dropWhile_id rev_rev_ident)
  also have "\<dots> = rev (dropWhile isWhiteSpace (rev ?d)) @ ?b"
    by (rule rev_append)
  finally have d: "?d = trim s @ ?b"
    by (simp only: trim_def)
  have "s = takeWhile isWhiteSpace s @ ?d" by simp
  with d have s: "s = takeWhile isWhiteSpace s @ trim s @ ?b" by simp
  have a: "list_all isWhiteSpace (takeWhile isWhiteSpace s)"
    by (auto simp: list_all_iff dest: set_takeWhileD)
  have b: "list_all isWhiteSpace ?b"
    by (auto simp: list_all_iff dest: set_takeWhileD)
  have e: "\<not> isWhiteSpace (hd (trim s)) \<and> \<not> isWhiteSpace (last (trim s))" if n: "trim s \<noteq> []"
  proof -
    from n have r: "dropWhile isWhiteSpace (rev ?d) \<noteq> []"
      by (simp add: trim_def del: dropWhile_eq_Nil_conv)
    then have "\<not> isWhiteSpace (hd (dropWhile isWhiteSpace (rev ?d)))"
      by (rule hd_dropWhile)
    with r have l: "\<not> isWhiteSpace (last (trim s))"
      by (simp add: trim_def last_rev del: dropWhile_eq_Nil_conv)
    from n d have "?d \<noteq> []"
      by (metis append_is_Nil_conv)
    then have "\<not> isWhiteSpace (hd ?d)" by (rule hd_dropWhile)
    moreover from n d have "hd ?d = hd (trim s)"
      by (metis hd_append2)
    ultimately show ?thesis using l by simp
  qed
  from s a b e show ?thesis
    unfolding stripped_def by blast
qed

lemma stripped_subset: "stripped s t \<Longrightarrow> set t \<subseteq> set s"
  by (auto simp: stripped_def)

lemma digit_of_nat: "k < 10 \<Longrightarrow> isDigit (0x30 + of_nat k)"
proof -
  assume "k < 10"
  then have "k \<in> {0, 1, 2, 3, 4, 5, 6, 7, 8, 9}" by auto
  then show ?thesis by (auto simp: isDigit_def)
qed

lemma dec_digits: "list_all isDigit (dec n)"
proof (induction n rule: dec.induct)
  case (1 n)
  show ?case
  proof (cases "n < 10")
    case True
    then show ?thesis by (simp add: dec.simps [of n] digit_of_nat)
  next
    case False
    with 1 show ?thesis by (simp add: dec.simps [of n] digit_of_nat)
  qed
qed

lemma digit_unat: "k < 10 \<Longrightarrow> unat (0x30 + of_nat k :: jschar) = 0x30 + k"
proof -
  assume "k < 10"
  then have "k \<in> {0, 1, 2, 3, 4, 5, 6, 7, 8, 9}" by auto
  then show ?thesis by auto
qed

lemma decimal_value_snoc:
  "decimal_value (ds @ [c]) = 10 * decimal_value ds + (unat c - 0x30)"
  by (simp add: decimal_value_def)

lemma dec_value: "decimal_value (dec n) = n"
proof (induction n rule: dec.induct)
  case (1 n)
  show ?case
  proof (cases "n < 10")
    case True
    then have "dec n = [0x30 + of_nat n]" by (simp add: dec.simps [of n])
    with True show ?thesis
      by (simp add: decimal_value_def digit_unat)
  next
    case False
    then have d: "dec n = dec (n div 10) @ [0x30 + of_nat (n mod 10)]"
      by (simp add: dec.simps [of n])
    from False 1 have "decimal_value (dec (n div 10)) = n div 10" by simp
    moreover have "unat (0x30 + of_nat (n mod 10) :: jschar) = 0x30 + n mod 10"
      by (rule digit_unat) simp
    ultimately show ?thesis
      by (simp only: d decimal_value_snoc) simp
  qed
qed

lemma dec_nonempty: "dec n \<noteq> []"
  by (cases "n < 10") (simp_all add: dec.simps [of n])

lemma dec_leading: "hd (dec n) = 0x30 \<longleftrightarrow> n = 0"
proof (induction n rule: dec.induct)
  case (1 n)
  show ?case
  proof (cases "n < 10")
    case True
    then have d: "hd (dec n) = 0x30 + of_nat n" by (simp add: dec.simps [of n])
    have "unat (0x30 + of_nat n :: jschar) = 0x30 + n"
      using True by (rule digit_unat)
    then have "(0x30 + of_nat n :: jschar) = 0x30 \<longleftrightarrow> n = 0"
      by (cases "n = 0") auto
    with d show ?thesis by simp
  next
    case False
    then have d: "dec n = dec (n div 10) @ [0x30 + of_nat (n mod 10)]"
      by (simp add: dec.simps [of n])
    from False 1 have "hd (dec (n div 10)) \<noteq> 0x30" by simp
    moreover have "hd (dec n) = hd (dec (n div 10))"
      by (simp only: d) (simp add: dec_nonempty)
    ultimately show ?thesis using False by simp
  qed
qed

lemma safe_class:
  "class_has True [Range 0x61 0x7A, Range 0x41 0x5A, Range 0x30 0x39, Unit 0x2E, Unit 0x2D] c
     \<longleftrightarrow> \<not> safe c"
  by (auto simp: class_has_def safe_def)

lemma sanitizedName_map: "sanitizedName s = map (\<lambda>c. if safe c then c else 0x5F) s"
  by (induction s) (simp_all add: sanitizedName_def replace_class_def safe_class js_def)

section \<open>The steps of the handler\<close>

lemma handler_POST:
  "req_method req = js ''POST'' \<Longrightarrow> upload_single env (parts req) w = Inr (file, w1)
     \<Longrightarrow> handler env req w = after_upload env req file w1"
  by (simp add: handler_def)

lemma handler_accepted_after_upload:
  assumes "handler env req w = ((200, body), w')"
  shows "\<exists>file w1. req_method req = js ''POST'' \<and> upload_single env (parts req) w = Inr (file, w1)
     \<and> after_upload env req file w1 = ((200, body), w')"
  using assms
  by (auto simp: handler_def split: if_splits sum.splits prod.splits)

lemma upload_keeps_applicants:
  "upload_single env ps w = Inr (file, w1) \<Longrightarrow>
     applicants w1 = applicants w \<and> next_id w1 = next_id w"
  by (auto simp: upload_single_def split: list.splits if_splits)

lemma upload_stores_file:
  "upload_single env ps w = Inr (Some name, w1) \<Longrightarrow> name \<in> set (files w1)"
  by (auto simp: upload_single_def split: list.splits if_splits)

lemma after_upload_first_error:
  "field_errors req file \<noteq> []
     \<Longrightarrow> after_upload env req file w = ((400, Error (hd (field_errors req file))), w)"
  by (auto simp: field_errors_def after_upload_def split: option.splits)

lemma after_upload_accepted:
  assumes "after_upload env req file w = ((200, body), w')"
  shows "\<exists>n e p name. fullName req = Some n \<and> email req = Some e \<and> phone req = Some p
      \<and> file = Some name \<and> validatePhone p
      \<and> find (\<lambda>a. email' a = e) (applicants w) = None
      \<and> find (\<lambda>a. phone' a = p) (applicants w) = None
      \<and> (case linkedin req of None \<Rightarrow> True | Some l \<Rightarrow> l = [] \<or> validateLinkedIn l)
      \<and> body = Message ''Application submitted successfully!'' (next_id w)
      \<and> applicants w' = applicants w @
          [\<lparr>id' = next_id w, full_name = trim n, email' = toLowerCase (trim e),
            phone' = trim p,
            linkedin' = (case linkedin req of None \<Rightarrow> None
                         | Some l \<Rightarrow> if trim l = [] then None else Some (trim l)),
            resume_path = js ''resumes/'' @ name\<rparr>]"
  using assms
  by (auto simp: after_upload_def catch_block_def create_def findFirst_def unlinkSync_def
        log_def Let_def
      split: option.splits if_splits sum.splits)

lemma after_upload_email_errors:
  assumes "fullName req = Some n" "trim n \<noteq> []"
  shows "snd (fst (after_upload env req uf w)) = Error ''Email is required''
     \<longleftrightarrow> (case email req of None \<Rightarrow> True | Some e \<Rightarrow> trim e = [])"
    and "snd (fst (after_upload env req uf w)) = Error ''Invalid email format''
     \<longleftrightarrow> (case email req of None \<Rightarrow> False | Some e \<Rightarrow> trim e \<noteq> [] \<and> \<not> validateEmail e)"
  using assms
  by (auto simp: after_upload_def catch_block_def create_def findFirst_def unlinkSync_def
        Let_def split: option.splits sum.splits)

lemma after_upload_phone_format:
  assumes "fullName req = Some n" "trim n \<noteq> []" "email req = Some e" "validateEmail e"
    and "phone req = Some p"
  shows "snd (fst (after_upload env req uf w)) = Error ''Phone number must be exactly 10 digits''
     \<longleftrightarrow> trim p \<noteq> [] \<and> \<not> validatePhone p"
  using assms validateEmail_trim [of e]
  by (auto simp: after_upload_def catch_block_def create_def findFirst_def unlinkSync_def
        Let_def split: option.splits sum.splits)

lemma after_upload_phone_required:
  assumes "fullName req = Some n" "trim n \<noteq> []" "email req = Some e" "validateEmail e"
  shows "snd (fst (after_upload env req uf w)) = Error ''Phone number is required''
     \<longleftrightarrow> (case phone req of None \<Rightarrow> True | Some p \<Rightarrow> trim p = [])"
  using assms validateEmail_trim [of e]
  by (auto simp: after_upload_def catch_block_def create_def findFirst_def unlinkSync_def
        Let_def split: option.splits sum.splits)

lemma cleanup_when_unlink_works:
  assumes "after_upload env req (Some name) w = ((st, body), w')"
    and "field_errors req (Some name) = []"
    and "st \<noteq> 200"
    and "Unlink \<notin> set (failing env)"
    and "name \<in> set (files w)"
  shows "name \<notin> set (files w') \<and> applicants w' = applicants w"
  using assms
  by (auto simp: after_upload_def field_errors_def catch_block_def create_def findFirst_def
        unlinkSync_def log_def Let_def
      split: option.splits sum.splits if_splits)

lemma first_part_rejected:
  assumes "req_method req = js ''POST''" and "parts req = f # rest"
    and "originalname f \<noteq> []" and "fieldname f = js ''resume''" and "\<not> fileFilter f"
  shows "handler env req w
     = ((400, Error ''Only PDF and DOCX files are allowed''),
        w\<lparr>console := console w @ [UploadError, ApiError]\<rparr>)"
  using assms by (simp add: handler_def upload_single_def catch_block_def log_def)

lemma second_part_over_limit:
  assumes "req_method req = js ''POST''" and "parts req = f # g # rest"
    and "originalname f \<noteq> []" and "fieldname f = js ''resume''" and "fileFilter f"
    and "Upload \<notin> set (failing env)" and "size_bytes f \<le> 5 * 1024 * 1024"
  shows "handler env req w
     = ((500, Error ''File upload failed''),
        w\<lparr>files := removeAll (filename env f) (files w),
          console := console w @ [UploadError, ApiError, CleanupError]\<rparr>)"
  using assms
  by (simp add: handler_def upload_single_def catch_block_def unlinkSync_def log_def)

section \<open>The examples, evaluated\<close>

lemma example_filename:
  "filename example_env example_file = js ''1700000000000-my_cv.pdf''"
  by (simp add: filename_def example_env_def example_file_def dec.simps sanitizedName_def
      replace_class_def class_has_def js_def)

lemma example_upload:
  "upload_single example_env [example_file] example_world
     = Inr (Some (js ''1700000000000-my_cv.pdf''), uploaded_world)"
proof -
  have "fieldname example_file = js ''resume''" "fileFilter example_file"
    "size_bytes example_file = 1000" "failing example_env = []"
    by (simp_all add: example_file_def fileFilter_def example_env_def)
  moreover have "originalname example_file \<noteq> []"
    by (simp add: example_file_def js_def)
  moreover have "List.insert (js ''1700000000000-my_cv.pdf'') (files example_world)
      = [js ''1700000000000-my_cv.pdf'', js ''1699999999999-old.pdf'']"
    by (simp add: example_world_def js_def)
  ultimately show ?thesis
    by (simp add: upload_single_def example_filename uploaded_world_def)
qed

lemma unlink_fails_upload:
  "upload_single unlink_fails [example_file] example_world
     = Inr (Some (js ''1700000000000-my_cv.pdf''), uploaded_world)"
proof -
  have "filename unlink_fails example_file = filename example_env example_file"
    by (simp add: filename_def unlink_fails_def)
  then have "upload_single unlink_fails [example_file] example_world
      = upload_single example_env [example_file] example_world"
    by (simp add: upload_single_def unlink_fails_def example_env_def)
  then show ?thesis by (simp add: example_upload)
qed

lemma example_trims:
  "trim (js ''Bob Ray'') = js ''Bob Ray''"
  "trim (js ''A@B.com'') = js ''A@B.com''"
  "trim (js ''a@b.com'') = js ''a@b.com''"
  "trim (js ''0987654321'') = js ''0987654321''"
  "trim (js ''nobody'') = js ''nobody''"
  "trim (js ''12'') = js ''12''"
  by (simp_all add: trim_def js_def isWhiteSpace_def)

lemma example_validations:
  "validateEmail (js ''A@B.com'')"
  "validateEmail (js ''a@b.com'')"
  "\<not> validateEmail (js ''nobody'')"
  "validatePhone (js ''0987654321'')"
  "\<not> validatePhone (js ''12'')"
  by code_simp+

lemma example_lower: "toLowerCase (js ''A@B.com'') = js ''a@b.com''"
proof -
  have "list_all (\<lambda>c. c < 0x80) (js ''A@B.com'')" by (simp add: js_def)
  then have "toLowerCase (js ''A@B.com'') = map lowerUnit (js ''A@B.com'')"
    by (rule toLowerCase_ascii)
  then show ?thesis by (simp add: lowerUnit_def js_def)
qed

lemma js_nonempty: "js ''Bob Ray'' \<noteq> []" "js ''A@B.com'' \<noteq> []" "js ''a@b.com'' \<noteq> []"
  "js ''0987654321'' \<noteq> []" "js ''nobody'' \<noteq> []" "js ''12'' \<noteq> []"
  by (simp_all add: js_def)

lemma example_lookups:
  "find (\<lambda>a. email' a = js ''A@B.com'') (applicants uploaded_world) = None"
  "find (\<lambda>a. phone' a = js ''0987654321'') (applicants uploaded_world) = None"
  "find (\<lambda>a. email' a = js ''a@b.com'') (applicants uploaded_world)
     = Some \<lparr>id' = 1, full_name = js ''Ann Lee'', email' = js ''a@b.com'',
        phone' = js ''1234567890'', linkedin' = None,
        resume_path = js ''resumes/1699999999999-old.pdf''\<rparr>"
  by (simp_all add: uploaded_world_def example_world_def js_def)

lemma accepted_example:
  "handler example_env example_request example_world
     = ((200, Message ''Application submitted successfully!'' 2),
        log (Created 2) (uploaded_world\<lparr>applicants := applicants uploaded_world @
          [\<lparr>id' = 2, full_name = js ''Bob Ray'', email' = js ''a@b.com'',
            phone' = js ''0987654321'', linkedin' = None,
            resume_path = js ''resumes/'' @ js ''1700000000000-my_cv.pdf''\<rparr>],
          next_id := 3\<rparr>))"
proof -
  have h: "handler example_env example_request example_world
     = after_upload example_env example_request
         (Some (js ''1700000000000-my_cv.pdf'')) uploaded_world"
    using example_upload by (simp add: handler_def example_request_def)
  have n: "next_id uploaded_world = 2" "failing example_env = []"
    by (simp_all add: uploaded_world_def example_world_def example_env_def)
  have "after_upload example_env example_request
         (Some (js ''1700000000000-my_cv.pdf'')) uploaded_world
     = ((200, Message ''Application submitted successfully!'' 2),
        log (Created 2) (uploaded_world\<lparr>applicants := applicants uploaded_world @
          [\<lparr>id' = 2, full_name = js ''Bob Ray'', email' = js ''a@b.com'',
            phone' = js ''0987654321'', linkedin' = None,
            resume_path = js ''resumes/'' @ js ''1700000000000-my_cv.pdf''\<rparr>],
          next_id := 3\<rparr>))"
    by (simp add: after_upload_def example_request_def findFirst_def create_def Let_def
        example_trims example_validations js_nonempty example_lookups example_lower n)
  with h show ?thesis by simp
qed

lemma padded_facts:
  "trim (js ''  Bob Ray '') = js ''Bob Ray''"
  "trim (0xC9 # js ''@B.com'') = 0xC9 # js ''@B.com''"
  "trim (js '' https://www.LinkedIn.com/in/bob '') = js ''https://www.LinkedIn.com/in/bob''"
  "js ''  Bob Ray '' \<noteq> []" "js '' https://www.LinkedIn.com/in/bob '' \<noteq> []"
  "js ''https://www.LinkedIn.com/in/bob'' \<noteq> []"
  by (simp_all add: trim_def js_def isWhiteSpace_def)

lemma padded_email_valid: "validateEmail (0xC9 # js ''@B.com'')"
  by code_simp

lemma padded_linkedin_valid: "validateLinkedIn (js '' https://www.LinkedIn.com/in/bob '')"
proof -
  have "list_all (\<lambda>c. c < 0x80) (js '' https://www.LinkedIn.com/in/bob '')"
    by (simp add: js_def)
  then have "toLowerCase (js '' https://www.LinkedIn.com/in/bob '')
      = map lowerUnit (js '' https://www.LinkedIn.com/in/bob '')"
    by (rule toLowerCase_ascii)
  then show ?thesis
    by (simp add: validateLinkedIn_def lowerUnit_def js_def)
qed

lemma padded_lower: "toLowerCase (0xC9 # js ''@B.com'') = 0xE9 # js ''@b.com''"
proof -
  have a: "simpleLower 0xC9 = 0xE9"
    by (simp add: simpleLower_def lowerTable_def)
  have "toLowerCase (0xC9 # js ''@B.com'')
      = map (\<lambda>c. of_nat (simpleLower (unat c))) (0xC9 # js ''@B.com'')"
    by (rule toLowerCase_pointwise) (simp add: js_def isLead_def a simpleLower_ascii)
  then show ?thesis
    by (simp add: js_def a simpleLower_ascii)
qed

lemma padded_lookup:
  "find (\<lambda>a. email' a = 0xC9 # js ''@B.com'') (applicants uploaded_world) = None"
  by (simp add: uploaded_world_def example_world_def js_def)

lemma padded_accepted:
  "handler example_env padded_request example_world
     = ((200, Message ''Application submitted successfully!'' 2),
        log (Created 2) (uploaded_world\<lparr>applicants := applicants uploaded_world @
          [\<lparr>id' = 2, full_name = js ''Bob Ray'', email' = 0xE9 # js ''@b.com'',
            phone' = js ''0987654321'',
            linkedin' = Some (js ''https://www.LinkedIn.com/in/bob''),
            resume_path = js ''resumes/'' @ js ''1700000000000-my_cv.pdf''\<rparr>],
          next_id := 3\<rparr>))"
proof -
  have h: "handler example_env padded_request example_world
     = after_upload example_env padded_request
         (Some (js ''1700000000000-my_cv.pdf'')) uploaded_world"
    using example_upload by (simp add: handler_def padded_request_def example_request_def)
  have n: "next_id uploaded_world = 2" "failing example_env = []"
    by (simp_all add: uploaded_world_def example_world_def example_env_def)
  have "after_upload example_env padded_request
         (Some (js ''1700000000000-my_cv.pdf'')) uploaded_world
     = ((200, Message ''Application submitted successfully!'' 2),
        log (Created 2) (uploaded_world\<lparr>applicants := applicants uploaded_world @
          [\<lparr>id' = 2, full_name = js ''Bob Ray'', email' = 0xE9 # js ''@b.com'',
            phone' = js ''0987654321'',
            linkedin' = Some (js ''https://www.LinkedIn.com/in/bob''),
            resume_path = js ''resumes/'' @ js ''1700000000000-my_cv.pdf''\<rparr>],
          next_id := 3\<rparr>))"
    by (simp add: after_upload_def padded_request_def example_request_def findFirst_def
        create_def Let_def example_trims example_validations js_nonempty example_lookups
        padded_facts padded_email_valid padded_linkedin_valid padded_lower padded_lookup n)
  with h show ?thesis by simp
qed

section \<open>The claims\<close>

text \<open>
  Claim C1 says that a submission whose file was stored and which then fails a later
  step has its file deleted before the failure is answered. The field-validation
  branches return without deleting: here a submission with a phone of two digits is
  answered 400 and its file, absent before, is in the upload directory afterwards,
  with no applicant created. The duplicate branches and the \<open>catch\<close> block do
  delete the file.
\<close>

theorem invalid_phone_leaves_file:
  "handler example_env short_phone_request example_world
     = ((400, Error ''Phone number must be exactly 10 digits''), uploaded_world)
   \<and> js ''1700000000000-my_cv.pdf'' \<in> set (files uploaded_world)
   \<and> js ''1700000000000-my_cv.pdf'' \<notin> set (files example_world)
   \<and> applicants uploaded_world = applicants example_world"
proof -
  have "after_upload example_env short_phone_request
      (Some (js ''1700000000000-my_cv.pdf'')) uploaded_world
     = ((400, Error ''Phone number must be exactly 10 digits''), uploaded_world)"
    by (simp add: after_upload_def short_phone_request_def example_request_def
        example_trims example_validations js_nonempty)
  moreover have "handler example_env short_phone_request example_world
     = after_upload example_env short_phone_request
         (Some (js ''1700000000000-my_cv.pdf'')) uploaded_world"
    using example_upload
    by (simp add: handler_def short_phone_request_def example_request_def)
  moreover have "js ''1700000000000-my_cv.pdf'' \<in> set (files uploaded_world)"
    "js ''1700000000000-my_cv.pdf'' \<notin> set (files example_world)"
    "applicants uploaded_world = applicants example_world"
    by (simp_all add: uploaded_world_def example_world_def js_def)
  ultimately show ?thesis by simp
qed

text \<open>
  Claim C2 says that duplicate-email detection is case-insensitive. The lookup uses the
  email as submitted while the stored email is lower-cased: with the applicant
  \<open>a@b.com\<close> in the table, a submission with \<open>A@B.com\<close> and a new phone is
  accepted, and the table then holds two applicants with the email \<open>a@b.com\<close>.
\<close>

theorem uppercase_email_bypasses_duplicate_check:
  "email example_request = Some (js ''A@B.com'')
   \<and> map email' (applicants example_world) = [js ''a@b.com'']
   \<and> fst (handler example_env example_request example_world)
     = (200, Message ''Application submitted successfully!'' 2)
   \<and> map email' (applicants (snd (handler example_env example_request example_world)))
     = [js ''a@b.com'', js ''a@b.com'']"
proof -
  have "map email' (applicants uploaded_world) = [js ''a@b.com'']"
    "map email' (applicants example_world) = [js ''a@b.com'']"
    "email example_request = Some (js ''A@B.com'')"
    by (simp_all add: uploaded_world_def example_world_def example_request_def)
  then show ?thesis by (simp add: accepted_example log_def)
qed

text \<open>
  Claim C3: when a submission violates field checks, the response is the one error of
  the first violated check in the order full name, email, phone, linkedin, file
  present; in particular a missing or blank full name yields the full-name error
  whatever the other fields are.
\<close>

theorem first_violation_wins:
  assumes "req_method req = js ''POST''"
    and "upload_single env (parts req) w = Inr (file, w1)"
    and "field_errors req file \<noteq> []"
  shows "handler env req w = ((400, Error (hd (field_errors req file))), w1)
     \<and> ((fullName req = None \<or> (\<exists>n. fullName req = Some n \<and> trim n = []))
          \<longrightarrow> handler env req w = ((400, Error ''Full name is required''), w1))"
proof -
  have a: "handler env req w = ((400, Error (hd (field_errors req file))), w1)"
    using assms by (simp add: handler_POST after_upload_first_error)
  have "hd (field_errors req file) = ''Full name is required''"
    if "fullName req = None \<or> (\<exists>n. fullName req = Some n \<and> trim n = [])"
    using that by (auto simp: field_errors_def)
  with a show ?thesis by simp
qed

theorem first_violation_wins_witness:
  "field_errors invalid_request (Some (js ''1700000000000-my_cv.pdf''))
     = [''Full name is required'', ''Invalid email format'',
        ''Phone number must be exactly 10 digits'']
   \<and> handler example_env invalid_request example_world
       = ((400, Error ''Full name is required''), uploaded_world)"
proof -
  have m: "req_method invalid_request = js ''POST''"
    by (simp add: invalid_request_def example_request_def)
  have u: "upload_single example_env (parts invalid_request) example_world
      = Inr (Some (js ''1700000000000-my_cv.pdf''), uploaded_world)"
    using example_upload by (simp add: invalid_request_def example_request_def)
  have f: "field_errors invalid_request (Some (js ''1700000000000-my_cv.pdf''))
     = [''Full name is required'', ''Invalid email format'',
        ''Phone number must be exactly 10 digits'']"
    by (simp add: field_errors_def invalid_request_def example_request_def
        example_trims example_validations js_nonempty)
  then have n: "field_errors invalid_request (Some (js ''1700000000000-my_cv.pdf'')) \<noteq> []"
    by simp
  show ?thesis
    using first_violation_wins [OF m u n] f by simp
qed

text \<open>
  Claim C4 says that a failing deletion never changes the response. The deletion in
  the duplicate branches is not guarded: a submission with a duplicate email is
  answered with the duplicate-email error when \<open>unlink\<close> works, and with 500
  \<open>Internal server error\<close> when it fails, the file staying where it is. Only the
  deletion in the \<open>catch\<close> block is guarded.
\<close>

theorem failed_unlink_replaces_duplicate_error:
  "handler example_env duplicate_request example_world
     = ((400, Error ''An application with this email already exists''), example_world)
   \<and> handler unlink_fails duplicate_request example_world
     = ((500, Error ''Internal server error''),
        uploaded_world\<lparr>console := [ApiError, CleanupError]\<rparr>)"
proof -
  have h: "handler unlink_fails duplicate_request example_world
     = after_upload unlink_fails duplicate_request
         (Some (js ''1700000000000-my_cv.pdf'')) uploaded_world"
    using unlink_fails_upload
    by (simp add: handler_def duplicate_request_def example_request_def)
  have n: "failing unlink_fails = [Unlink]" "console uploaded_world = []"
    by (simp_all add: unlink_fails_def uploaded_world_def example_world_def)
  have a: "after_upload unlink_fails duplicate_request
         (Some (js ''1700000000000-my_cv.pdf'')) uploaded_world
     = ((500, Error ''Internal server error''),
        uploaded_world\<lparr>console := [ApiError, CleanupError]\<rparr>)"
    by (simp add: after_upload_def duplicate_request_def example_request_def findFirst_def
        unlinkSync_def catch_block_def log_def
        example_trims example_validations js_nonempty example_lookups n)
  have g: "handler example_env duplicate_request example_world
     = after_upload example_env duplicate_request
         (Some (js ''1700000000000-my_cv.pdf'')) uploaded_world"
    using example_upload
    by (simp add: handler_def duplicate_request_def example_request_def)
  have m: "failing example_env = []"
    "js ''1700000000000-my_cv.pdf'' \<in> set (files uploaded_world)"
    "uploaded_world\<lparr>files := removeAll (js ''1700000000000-my_cv.pdf'') (files uploaded_world)\<rparr>
      = example_world"
    by (simp_all add: example_env_def uploaded_world_def example_world_def js_def)
  have b: "after_upload example_env duplicate_request
         (Some (js ''1700000000000-my_cv.pdf'')) uploaded_world
     = ((400, Error ''An application with this email already exists''), example_world)"
    by (simp add: after_upload_def duplicate_request_def example_request_def findFirst_def
        unlinkSync_def example_trims example_validations js_nonempty example_lookups m)
  from h a g b show ?thesis by simp
qed

text \<open>
  Claim C5: an accepted submission creates one applicant whose full name is the
  submitted one trimmed, whose email is the submitted one trimmed and lower-cased,
  whose phone is the submitted one trimmed, whose linkedin is the submitted one
  trimmed, or absent when the field was absent or empty, and whose resume path is
  \<open>resumes/\<close> followed by the name of the file that the upload stored. Trimmed
  means that the white space at both ends is stripped; on an ASCII email lower-casing
  turns A to Z into a to z and leaves the rest.
\<close>

theorem created_record_fields:
  assumes "handler env req w = ((200, body), w')"
  shows "\<exists>n e p name w1.
      fullName req = Some n \<and> email req = Some e \<and> phone req = Some p
    \<and> upload_single env (parts req) w = Inr (Some name, w1)
    \<and> name \<in> set (files w1)
    \<and> body = Message ''Application submitted successfully!'' (next_id w)
    \<and> applicants w' = applicants w @
         [\<lparr>id' = next_id w, full_name = trim n, email' = toLowerCase (trim e),
           phone' = trim p,
           linkedin' = (case linkedin req of None \<Rightarrow> None
                        | Some l \<Rightarrow> if l = [] then None else Some (trim l)),
           resume_path = js ''resumes/'' @ name\<rparr>]
    \<and> stripped n (trim n) \<and> stripped e (trim e) \<and> stripped p (trim p)
    \<and> (case linkedin req of None \<Rightarrow> True | Some l \<Rightarrow> stripped l (trim l))
    \<and> (list_all (\<lambda>c. c < 0x80) e \<longrightarrow> toLowerCase (trim e) = map lowerUnit (trim e))"
proof -
  from assms obtain uf w1 where
    u: "upload_single env (parts req) w = Inr (uf, w1)"
    and a: "after_upload env req uf w1 = ((200, body), w')"
    using handler_accepted_after_upload by blast
  from after_upload_accepted [OF a] obtain n e p name where
    f: "fullName req = Some n" "email req = Some e" "phone req = Some p" "uf = Some name"
    and l: "case linkedin req of None \<Rightarrow> True | Some l \<Rightarrow> l = [] \<or> validateLinkedIn l"
    and b: "body = Message ''Application submitted successfully!'' (next_id w1)"
    and r: "applicants w' = applicants w1 @
          [\<lparr>id' = next_id w1, full_name = trim n, email' = toLowerCase (trim e),
            phone' = trim p,
            linkedin' = (case linkedin req of None \<Rightarrow> None
                         | Some l \<Rightarrow> if trim l = [] then None else Some (trim l)),
            resume_path = js ''resumes/'' @ name\<rparr>]"
    by blast
  have k: "applicants w1 = applicants w" "next_id w1 = next_id w"
    using upload_keeps_applicants [OF u] by simp_all
  have "(case linkedin req of None \<Rightarrow> None
         | Some l \<Rightarrow> if trim l = [] then None else Some (trim l))
      = (case linkedin req of None \<Rightarrow> None
         | Some l \<Rightarrow> if l = [] then None else Some (trim l))"
    using l by (auto simp: trim_Nil linkedin_trim split: option.splits)
  with r have r': "applicants w' = applicants w1 @
          [\<lparr>id' = next_id w1, full_name = trim n, email' = toLowerCase (trim e),
            phone' = trim p,
            linkedin' = (case linkedin req of None \<Rightarrow> None
                         | Some l \<Rightarrow> if l = [] then None else Some (trim l)),
            resume_path = js ''resumes/'' @ name\<rparr>]"
    by simp
  from u f(4) have s: "name \<in> set (files w1)"
    by (simp add: upload_stores_file)
  have t: "case linkedin req of None \<Rightarrow> True | Some l \<Rightarrow> stripped l (trim l)"
    by (simp add: trim_stripped split: option.splits)
  have "toLowerCase (trim e) = map lowerUnit (trim e)" if "list_all (\<lambda>c. c < 0x80) e"
  proof -
    from that stripped_subset [OF trim_stripped, of e]
    have "list_all (\<lambda>c. c < 0x80) (trim e)"
      by (auto simp: list_all_iff)
    then show ?thesis by (rule toLowerCase_ascii)
  qed
  with u f b r' k s t show ?thesis by (simp add: trim_stripped)
qed

theorem created_record_fields_witness:
  "fullName padded_request = Some (js ''  Bob Ray '')
   \<and> email padded_request = Some (0xC9 # js ''@B.com'')
   \<and> phone padded_request = Some (js ''0987654321'')
   \<and> linkedin padded_request = Some (js '' https://www.LinkedIn.com/in/bob '')
   \<and> fst (handler example_env padded_request example_world)
     = (200, Message ''Application submitted successfully!'' 2)
   \<and> applicants (snd (handler example_env padded_request example_world))
     = applicants example_world @
         [\<lparr>id' = 2, full_name = js ''Bob Ray'', email' = 0xE9 # js ''@b.com'',
           phone' = js ''0987654321'',
           linkedin' = Some (js ''https://www.LinkedIn.com/in/bob''),
           resume_path = js ''resumes/1700000000000-my_cv.pdf''\<rparr>]"
proof -
  have h: "handler example_env padded_request example_world
      = ((200, Message ''Application submitted successfully!'' 2),
         snd (handler example_env padded_request example_world))"
    by (simp add: padded_accepted)
  have q: "fullName padded_request = Some (js ''  Bob Ray '')"
    "email padded_request = Some (0xC9 # js ''@B.com'')"
    "phone padded_request = Some (js ''0987654321'')"
    "linkedin padded_request = Some (js '' https://www.LinkedIn.com/in/bob '')"
    by (simp_all add: padded_request_def example_request_def)
  have u: "upload_single example_env (parts padded_request) example_world
      = Inr (Some (js ''1700000000000-my_cv.pdf''), uploaded_world)"
    using example_upload by (simp add: padded_request_def example_request_def)
  have c: "next_id example_world = 2"
    "js ''resumes/'' @ js ''1700000000000-my_cv.pdf'' = js ''resumes/1700000000000-my_cv.pdf''"
    by (simp_all add: example_world_def js_def)
  have "applicants (snd (handler example_env padded_request example_world))
     = applicants example_world @
         [\<lparr>id' = 2, full_name = js ''Bob Ray'', email' = 0xE9 # js ''@b.com'',
           phone' = js ''0987654321'',
           linkedin' = Some (js ''https://www.LinkedIn.com/in/bob''),
           resume_path = js ''resumes/1700000000000-my_cv.pdf''\<rparr>]"
    using created_record_fields [OF h] u c q
    by (auto simp: example_trims padded_facts padded_lower)
  with h q show ?thesis by (metis fst_conv)
qed

text \<open>
  Claim C6: the phone check passes exactly for strings of exactly 10 decimal digits.
  For a submission whose full name and email are valid, the handler answers the
  phone-format error exactly when the phone is non-blank and not 10 digits, and the
  phone-required error exactly when it is blank; \<open>1234567890\<close> passes, and
  \<open>123456789\<close>, \<open>12345678901\<close> and \<open>123-456-7890\<close> do not.
\<close>

theorem phone_accepted_iff_ten_digits:
  assumes "req_method req = js ''POST''"
    and "upload_single env (parts req) w = Inr (uf, w1)"
    and "fullName req = Some n" and "trim n \<noteq> []"
    and "email req = Some e" and "validateEmail e"
    and "phone req = Some p"
  shows "(validatePhone p \<longleftrightarrow> length p = 10 \<and> list_all isDigit p)
    \<and> (snd (fst (handler env req w)) = Error ''Phone number must be exactly 10 digits''
         \<longleftrightarrow> trim p \<noteq> [] \<and> \<not> (length p = 10 \<and> list_all isDigit p))
    \<and> (snd (fst (handler env req w)) = Error ''Phone number is required''
         \<longleftrightarrow> trim p = [])
    \<and> validatePhone (js ''1234567890'')
    \<and> \<not> validatePhone (js ''123456789'')
    \<and> \<not> validatePhone (js ''12345678901'')
    \<and> \<not> validatePhone (js ''123-456-7890'')"
proof -
  have h: "handler env req w = after_upload env req uf w1"
    using assms(1,2) by (rule handler_POST)
  have ex: "validatePhone (js ''1234567890'')" "\<not> validatePhone (js ''123456789'')"
    "\<not> validatePhone (js ''12345678901'')" "\<not> validatePhone (js ''123-456-7890'')"
    by (simp_all add: validatePhone_iff js_def isDigit_def)
  show ?thesis
    using after_upload_phone_format [OF assms(3-7), of env uf w1]
      after_upload_phone_required [OF assms(3-6), of env uf w1] assms(7) ex
    by (simp add: h validatePhone_iff)
qed

theorem phone_accepted_iff_ten_digits_witness:
  "req_method dashed_phone_request = js ''POST''
   \<and> upload_single example_env (parts dashed_phone_request) example_world
       = Inr (Some (js ''1700000000000-my_cv.pdf''), uploaded_world)
   \<and> fullName dashed_phone_request = Some (js ''Bob Ray'') \<and> trim (js ''Bob Ray'') \<noteq> []
   \<and> email dashed_phone_request = Some (js ''A@B.com'') \<and> validateEmail (js ''A@B.com'')
   \<and> phone dashed_phone_request = Some (js ''123-456-7890'')
   \<and> snd (fst (handler example_env dashed_phone_request example_world))
       = Error ''Phone number must be exactly 10 digits''"
proof -
  have m: "req_method dashed_phone_request = js ''POST''"
    by (simp add: dashed_phone_request_def example_request_def)
  have u: "upload_single example_env (parts dashed_phone_request) example_world
       = Inr (Some (js ''1700000000000-my_cv.pdf''), uploaded_world)"
    using example_upload by (simp add: dashed_phone_request_def example_request_def)
  have n: "fullName dashed_phone_request = Some (js ''Bob Ray'')"
    and e: "email dashed_phone_request = Some (js ''A@B.com'')"
    and p: "phone dashed_phone_request = Some (js ''123-456-7890'')"
    by (simp_all add: dashed_phone_request_def example_request_def)
  have t: "trim (js ''Bob Ray'') \<noteq> []"
    by (simp add: example_trims js_nonempty)
  have v: "validateEmail (js ''A@B.com'')"
    by (simp add: example_validations)
  have d: "trim (js ''123-456-7890'') \<noteq> []" "length (js ''123-456-7890'') \<noteq> 10"
    by (simp_all add: trim_def js_def isWhiteSpace_def)
  show ?thesis
    using phone_accepted_iff_ten_digits [OF m u n t e v p] m u n t e v p d by simp
qed

text \<open>
  Claim C7: \<open>validateEmail\<close> accepts exactly the strings of the shape, and for a
  submission with a valid full name the handler answers one of the two email errors
  exactly when the email is absent or is not of the shape; it answers that the
  email is required exactly when the email is absent or white space only.
\<close>

theorem email_fails_iff_not_shaped:
  assumes "req_method req = js ''POST''"
    and "upload_single env (parts req) w = Inr (uf, w1)"
    and "fullName req = Some n" and "trim n \<noteq> []"
  shows "(validateEmail s \<longleftrightarrow> email_shape s)
    \<and> (snd (fst (handler env req w)) \<in> {Error ''Email is required'', Error ''Invalid email format''}
         \<longleftrightarrow> \<not> (\<exists>e. email req = Some e \<and> email_shape e))
    \<and> (snd (fst (handler env req w)) = Error ''Email is required''
         \<longleftrightarrow> email req = None \<or> (\<exists>e. email req = Some e \<and> list_all isWhiteSpace e))"
proof -
  have h: "handler env req w = after_upload env req uf w1"
    using assms(1,2) by (rule handler_POST)
  note r = after_upload_email_errors [OF assms(3,4), of env uf w1]
  have a: "snd (fst (handler env req w)) = Error ''Email is required''
         \<longleftrightarrow> email req = None \<or> (\<exists>e. email req = Some e \<and> list_all isWhiteSpace e)"
    using r(1) by (auto simp: h trim_empty_iff split: option.splits)
  have b: "snd (fst (handler env req w)) \<in> {Error ''Email is required'', Error ''Invalid email format''}
         \<longleftrightarrow> \<not> (\<exists>e. email req = Some e \<and> email_shape e)"
    using r validateEmail_trim
    by (cases "email req") (auto simp: h validateEmail_iff [symmetric])
  from a b show ?thesis by (simp add: validateEmail_iff)
qed

theorem email_fails_iff_not_shaped_witness:
  "req_method no_at_request = js ''POST''
   \<and> upload_single example_env (parts no_at_request) example_world
       = Inr (Some (js ''1700000000000-my_cv.pdf''), uploaded_world)
   \<and> fullName no_at_request = Some (js ''Bob Ray'') \<and> trim (js ''Bob Ray'') \<noteq> []
   \<and> email no_at_request = Some (js ''nobody'') \<and> \<not> email_shape (js ''nobody'')
   \<and> email_shape (js ''a@b.com'')
   \<and> snd (fst (handler example_env no_at_request example_world))
       \<in> {Error ''Email is required'', Error ''Invalid email format''}"
proof -
  have m: "req_method no_at_request = js ''POST''"
    by (simp add: no_at_request_def example_request_def)
  have u: "upload_single example_env (parts no_at_request) example_world
       = Inr (Some (js ''1700000000000-my_cv.pdf''), uploaded_world)"
    using example_upload by (simp add: no_at_request_def example_request_def)
  have n: "fullName no_at_request = Some (js ''Bob Ray'')"
    and e: "email no_at_request = Some (js ''nobody'')"
    by (simp_all add: no_at_request_def example_request_def)
  have t: "trim (js ''Bob Ray'') \<noteq> []"
    by (simp add: example_trims js_nonempty)
  note c = email_fails_iff_not_shaped [OF m u n t]
  have s1: "\<not> email_shape (js ''nobody'')"
    using c [of "js ''nobody''"] example_validations(3) by simp
  have s2: "email_shape (js ''a@b.com'')"
    using c [of "js ''a@b.com''"] example_validations(2) by simp
  from s1 e have "\<not> (\<exists>e. email no_at_request = Some e \<and> email_shape e)"
    by simp
  with c [of "[]"] have "snd (fst (handler example_env no_at_request example_world))
       \<in> {Error ''Email is required'', Error ''Invalid email format''}"
    by blast
  with m u n t e s1 s2 show ?thesis by blast
qed

text \<open>
  Claim C8: the stored file's name is the timestamp, \<open>-\<close>, and the sanitized
  original name. The timestamp is the clock's milliseconds in decimal digits: they
  denote that number and have no leading zero. Sanitization keeps the characters of
  \<open>[A-Za-z0-9.-]\<close>, replaces every other code unit by \<open>_\<close>, and so keeps the length.
\<close>

theorem stored_name_is_timestamp_and_sanitized_name:
  "filename env f = dec (now env) @ js ''-'' @ sanitizedName (originalname f)
   \<and> list_all isDigit (dec (now env))
   \<and> decimal_value (dec (now env)) = now env
   \<and> dec (now env) \<noteq> [] \<and> (hd (dec (now env)) = 0x30 \<longleftrightarrow> now env = 0)
   \<and> sanitizedName s = map (\<lambda>c. if safe c then c else 0x5F) s
   \<and> length (sanitizedName s) = length s
   \<and> list_all (\<lambda>c. safe c \<or> c = 0x5F) (sanitizedName s)
   \<and> (\<forall>name w1. upload_single env [f] w = Inr (Some name, w1)
         \<longrightarrow> name = filename env f \<and> name \<in> set (files w1)
             \<and> (\<exists>ts. name = ts @ [0x2D] @ map (\<lambda>c. if safe c then c else 0x5F) (originalname f)
                    \<and> list_all isDigit ts \<and> decimal_value ts = now env
                    \<and> ts \<noteq> [] \<and> (hd ts = 0x30 \<longleftrightarrow> now env = 0)))"
proof -
  have c1: "filename env f = dec (now env) @ js ''-'' @ sanitizedName (originalname f)"
    by (simp add: filename_def)
  have c2: "list_all isDigit (dec (now env))" by (rule dec_digits)
  have c3: "decimal_value (dec (now env)) = now env" by (rule dec_value)
  have c4: "dec (now env) \<noteq> []" by (rule dec_nonempty)
  have c5: "hd (dec (now env)) = 0x30 \<longleftrightarrow> now env = 0" by (rule dec_leading)
  have c6: "sanitizedName s = map (\<lambda>c. if safe c then c else 0x5F) s"
    by (rule sanitizedName_map)
  have c7: "length (sanitizedName s) = length s" by (simp add: sanitizedName_map)
  have c8: "list_all (\<lambda>c. safe c \<or> c = 0x5F) (sanitizedName s)"
    by (induction s) (simp_all add: sanitizedName_map)
  have b: "filename env f
      = dec (now env) @ [0x2D] @ map (\<lambda>c. if safe c then c else 0x5F) (originalname f)"
    by (simp add: filename_def sanitizedName_map js_def)
  have c9: "\<forall>name w1. upload_single env [f] w = Inr (Some name, w1)
         \<longrightarrow> name = filename env f \<and> name \<in> set (files w1)
             \<and> (\<exists>ts. name = ts @ [0x2D] @ map (\<lambda>c. if safe c then c else 0x5F) (originalname f)
                    \<and> list_all isDigit ts \<and> decimal_value ts = now env
                    \<and> ts \<noteq> [] \<and> (hd ts = 0x30 \<longleftrightarrow> now env = 0))"
  proof (intro allI impI)
    fix name w1
    assume "upload_single env [f] w = Inr (Some name, w1)"
    then have n: "name = filename env f" "name \<in> set (files w1)"
      by (auto simp: upload_single_def split: if_splits)
    from n(1) b have m: "name
        = dec (now env) @ [0x2D] @ map (\<lambda>c. if safe c then c else 0x5F) (originalname f)"
      by simp
    show "name = filename env f \<and> name \<in> set (files w1)
        \<and> (\<exists>ts. name = ts @ [0x2D] @ map (\<lambda>c. if safe c then c else 0x5F) (originalname f)
               \<and> list_all isDigit ts \<and> decimal_value ts = now env
               \<and> ts \<noteq> [] \<and> (hd ts = 0x30 \<longleftrightarrow> now env = 0))"
    proof (intro conjI exI)
      show "name = filename env f" by (rule n(1))
      show "name \<in> set (files w1)" by (rule n(2))
      show "name
        = dec (now env) @ [0x2D] @ map (\<lambda>c. if safe c then c else 0x5F) (originalname f)"
        by (rule m)
      show "list_all isDigit (dec (now env))" by (rule c2)
      show "decimal_value (dec (now env)) = now env" by (rule c3)
      show "dec (now env) \<noteq> []" by (rule c4)
      show "hd (dec (now env)) = 0x30 \<longleftrightarrow> now env = 0" by (rule c5)
    qed
  qed
  show ?thesis
    by (intro conjI c1 c2 c3 c4 c5 c6 c7 c8 c9)
qed

theorem stored_name_is_timestamp_and_sanitized_name_witness:
  "filename example_env example_file = js ''1700000000000-my_cv.pdf''
   \<and> now example_env = 1700000000000
   \<and> dec (now example_env) = js ''1700000000000''
   \<and> decimal_value (js ''1700000000000'') = 1700000000000
   \<and> originalname example_file = js ''my cv.pdf''
   \<and> sanitizedName (originalname example_file) = js ''my_cv.pdf''
   \<and> upload_single example_env [example_file] example_world
       = Inr (Some (js ''1700000000000-my_cv.pdf''), uploaded_world)
   \<and> js ''1700000000000-my_cv.pdf'' \<in> set (files uploaded_world)"
proof -
  note c = stored_name_is_timestamp_and_sanitized_name
    [of example_env example_file "originalname example_file" example_world]
  note k1 = c [THEN conjunct1]
  note k3 = c [THEN conjunct2, THEN conjunct2, THEN conjunct1]
  note k6 = c [THEN conjunct2, THEN conjunct2, THEN conjunct2, THEN conjunct2,
    THEN conjunct2, THEN conjunct1]
  note k9 = c [THEN conjunct2, THEN conjunct2, THEN conjunct2, THEN conjunct2,
    THEN conjunct2, THEN conjunct2, THEN conjunct2, THEN conjunct2, rule_format,
    OF example_upload]
  have n: "now example_env = 1700000000000" "originalname example_file = js ''my cv.pdf''"
    by (simp_all add: example_env_def example_file_def)
  have d: "dec (now example_env) = js ''1700000000000''"
    by (simp add: example_env_def dec.simps js_def)
  have v: "decimal_value (js ''1700000000000'') = 1700000000000"
    using k3 [unfolded d] by (simp only: n)
  have s: "sanitizedName (originalname example_file) = js ''my_cv.pdf''"
    using k6 by (simp add: example_file_def safe_def js_def)
  have f: "filename example_env example_file = js ''1700000000000-my_cv.pdf''"
    using k1 [unfolded d s] by (simp add: js_def)
  have m: "js ''1700000000000-my_cv.pdf'' \<in> set (files uploaded_world)"
    by (rule k9 [THEN conjunct2, THEN conjunct1])
  show ?thesis
    by (intro conjI f n d v s example_upload m)
qed

text \<open>
  Claim C9: a request whose method is not POST is answered 405 at once, and the world
  (files, applicants, console) is unchanged.
\<close>

theorem method_guard_has_no_effect:
  "req_method req \<noteq> js ''POST''
     \<Longrightarrow> handler env req w = ((405, Error ''Method Not Allowed''), w)"
  by (simp add: handler_def)

theorem method_guard_has_no_effect_witness:
  "req_method (example_request\<lparr>req_method := js ''GET''\<rparr>) \<noteq> js ''POST''
   \<and> handler example_env (example_request\<lparr>req_method := js ''GET''\<rparr>) example_world
       = ((405, Error ''Method Not Allowed''), example_world)"
proof -
  have h: "req_method (example_request\<lparr>req_method := js ''GET''\<rparr>) \<noteq> js ''POST''"
    by (simp add: js_def)
  show ?thesis
    using h method_guard_has_no_effect [OF h, of example_env example_world] by simp
qed

text \<open>
  Claim C10: a phone that passes the format check consists of digits only and equals
  its own trim, so the string looked up in the duplicate-phone check and the string
  stored in the created applicant are the same.
\<close>

theorem valid_phone_is_its_own_trim:
  assumes "validatePhone p"
  shows "list_all isDigit p \<and> trim p = p
    \<and> (\<forall>body w'. phone req = Some p \<and> handler env req w = ((200, body), w')
          \<longrightarrow> find (\<lambda>a. phone' a = p) (applicants w) = None
              \<and> phone' (last (applicants w')) = p)"
proof -
  have a: "list_all isDigit p" using assms by (simp add: validatePhone_iff)
  have b: "trim p = p" using assms by (rule validatePhone_trim)
  have "find (\<lambda>a. phone' a = p) (applicants w) = None \<and> phone' (last (applicants w')) = p"
    if q: "phone req = Some p" and h: "handler env req w = ((200, body), w')" for body w'
  proof -
    from h obtain uf w1 where
      u: "upload_single env (parts req) w = Inr (uf, w1)"
      and c: "after_upload env req uf w1 = ((200, body), w')"
      using handler_accepted_after_upload by blast
    from after_upload_accepted [OF c] q obtain row where
      "find (\<lambda>a. phone' a = p) (applicants w1) = None"
      "applicants w' = applicants w1 @ [row]" "phone' row = trim p"
      by auto
    with upload_keeps_applicants [OF u] b show ?thesis by simp
  qed
  with a b show ?thesis by blast
qed

theorem valid_phone_is_its_own_trim_witness:
  "validatePhone (js ''0987654321'')
   \<and> trim (js ''0987654321'') = js ''0987654321''
   \<and> phone example_request = Some (js ''0987654321'')
   \<and> find (\<lambda>a. phone' a = js ''0987654321'') (applicants example_world) = None
   \<and> phone' (last (applicants (snd (handler example_env example_request example_world))))
       = js ''0987654321''"
proof -
  have v: "validatePhone (js ''0987654321'')"
    by (simp add: example_validations)
  have q: "phone example_request = Some (js ''0987654321'')"
    by (simp add: example_request_def)
  have h: "handler example_env example_request example_world
      = ((200, Message ''Application submitted successfully!'' 2),
         snd (handler example_env example_request example_world))"
    by (simp add: accepted_example)
  show ?thesis
    using valid_phone_is_its_own_trim [OF v, of example_request example_env example_world]
      v q h
    by blast
qed

end
